theory Spec2Isabelle
  imports Complex_Main "HOL-Library.Word"
begin

section \<open>Shared vocabulary\<close>

text \<open>
  The two source files are \<^verbatim>\<open>FTLs/fast_ftl.cpp\<close> (class \<^verbatim>\<open>FtlImpl_Fast\<close>) and
  \<^verbatim>\<open>ssd_block_manager_parent.cpp\<close> (class \<^verbatim>\<open>Block_manager_parent\<close>). The header
  \<^verbatim>\<open>ssd.h\<close> with the declarations of \<^verbatim>\<open>Event\<close>, \<^verbatim>\<open>Address\<close>, \<^verbatim>\<open>Block\<close>,
  \<^verbatim>\<open>Controller\<close> and the global constants is not among the sources, so the enumerations
  and records below list the members the two files read and write, and the behaviour of
  the collaborators is a parameter of every operation.

  \<^verbatim>\<open>uint\<close> is a 32-bit word, so \<^verbatim>\<open>+\<close>, \<^verbatim>\<open>-\<close> and \<^verbatim>\<open>++\<close> wrap as they do in C++.
  Logical addresses are natural numbers, physical linear addresses in the translation
  layer are integers (\<^verbatim>\<open>long\<close>, with the sentinel \<^verbatim>\<open>-1\<close> for an unmapped entry).
  What C++ leaves undefined (an index outside a vector, a division by zero, a failed
  \<^verbatim>\<open>assert\<close>) is an error value of the model.
\<close>

type_synonym uint = "32 word"

datatype status = SUCCESS | FAILURE

datatype event_type = READ | READ_COMMAND | READ_TRANSFER | WRITE | ERASE | MERGE | TRIM

datatype page_state = EMPTY | VALID | INVALID

datatype block_state = FREE | PARTIALLY_FREE | ACTIVE | INACTIVE

datatype block_type = LOG | DATA

datatype error = AssertionFailed | OutOfRange | DivisionByZero | NullDereference

record Config =
  SSD_SIZE :: nat
  PACKAGE_SIZE :: nat
  DIE_SIZE :: nat
  PLANE_SIZE :: nat
  BLOCK_SIZE :: uint
  BLOCK_ERASES :: uint
  PAGE_MAX_LOG :: nat

section \<open>The FAST translation layer (FTLs/fast\_ftl.cpp)\<close>

subsection \<open>Events, log blocks and the collaborators\<close>

text \<open>
  An \<^verbatim>\<open>Event\<close> as the translation layer sees it: its own fields and the chain of
  events hanging off it through \<^verbatim>\<open>set_next\<close>. \<^verbatim>\<open>get_last_event\<close> returns the tail of the
  chain, so appending to the tail is appending to the list \<open>next_events\<close>. The payload
  pointer \<^verbatim>\<open>page_data + a * PAGE_SIZE\<close> is recorded as the linear address \<open>a\<close> it is
  computed from.
\<close>

record Op =
  op_type :: event_type
  op_logical_address :: nat
  op_address :: int
  op_payload :: "int option"

record Event =
  event_type :: event_type
  logical_address :: nat
  address :: int
  next_events :: "Op list"

text \<open>
  Modelled from the spec: \<^verbatim>\<open>LogPageBlock\<close> is declared in the missing header. It holds
  the physical block address and an array of per-logical-page-offset slot indices, with
  the sentinel \<^verbatim>\<open>-1\<close> for an empty entry; a new log block has every entry empty.
\<close>

record LogPageBlock =
  lb_address :: int
  pages :: "nat \<Rightarrow> int"

definition new_LogPageBlock :: LogPageBlock where
  "new_LogPageBlock = \<lparr> lb_address = 0, pages = (\<lambda>_. - 1) \<rparr>"

text \<open>
  The block manager as the translation layer uses it. \<^verbatim>\<open>get_free_block\<close>,
  \<^verbatim>\<open>invalidate\<close>, \<^verbatim>\<open>insert_events\<close>, \<^verbatim>\<open>simulate_map_write\<close> and \<^verbatim>\<open>simulate_map_read\<close>
  are not defined in the sources: every call is written to a log in program order, and
  \<^verbatim>\<open>get_free_block\<close> answers with the next element of an arbitrary sequence of block
  addresses.
\<close>

datatype manager_call =
    GetFreeBlock block_type
  | Invalidate int block_type
  | InsertEvents
  | SimulateMapWrite
  | SimulateMapRead

record Manager =
  free_sequence :: "nat \<Rightarrow> int"
  handed_out :: nat
  calls :: "manager_call list"

definition get_free_block :: "block_type \<Rightarrow> Manager \<Rightarrow> int \<times> Manager" where
  "get_free_block t m =
     (free_sequence m (handed_out m),
      m\<lparr> handed_out := Suc (handed_out m), calls := calls m @ [GetFreeBlock t] \<rparr>)"

definition invalidate :: "int \<Rightarrow> block_type \<Rightarrow> Manager \<Rightarrow> Manager" where
  "invalidate a t m = m\<lparr> calls := calls m @ [Invalidate a t] \<rparr>"

definition insert_events :: "Manager \<Rightarrow> Manager" where
  "insert_events m = m\<lparr> calls := calls m @ [InsertEvents] \<rparr>"

definition simulate_map_write :: "Manager \<Rightarrow> Manager" where
  "simulate_map_write m = m\<lparr> calls := calls m @ [SimulateMapWrite] \<rparr>"

definition simulate_map_read :: "Manager \<Rightarrow> Manager" where
  "simulate_map_read m = m\<lparr> calls := calls m @ [SimulateMapRead] \<rparr>"

text \<open>
  The controller and the device, as far as the translation layer asks them:
  \<^verbatim>\<open>controller.issue\<close>, \<^verbatim>\<open>controller.get_free_page\<close> (which rewrites the address it is
  given), \<^verbatim>\<open>controller.get_block_state\<close>, \<^verbatim>\<open>FtlParent::get_state\<close> (the state of a
  physical page) and \<^verbatim>\<open>Event::consolidate_metaevent\<close>.
\<close>

record Controller =
  issue :: "Event \<Rightarrow> status"
  get_free_page :: "int \<Rightarrow> int"
  get_block_state :: "int \<Rightarrow> block_state"
  get_state :: "int \<Rightarrow> page_state"
  consolidate_metaevent :: "Event \<Rightarrow> Event"

subsection \<open>The state of FtlImpl\_Fast\<close>

text \<open>
  \<^verbatim>\<open>data_list\<close> is a C array of \<^verbatim>\<open>long\<close> indexed by logical block; it is a function
  here, and an access outside the allocated table (undefined in C++) is not told apart.
  \<^verbatim>\<open>log_map\<close> is a \<^verbatim>\<open>std::map<long, LogPageBlock*>\<close>: a list of pairs with distinct
  keys in ascending key order, so that \<^verbatim>\<open>log_map.begin()\<close> is its head and
  \<^verbatim>\<open>log_map.size()\<close> its length.
\<close>

record Ftl =
  addressShift :: nat
  data_list :: "int \<Rightarrow> int"
  log_map :: "(int \<times> LogPageBlock) list"
  sequential_address :: int
  sequential_logical_address :: int
  sequential_offset :: uint
  manager :: Manager

fun map_find :: "int \<Rightarrow> (int \<times> 'v) list \<Rightarrow> 'v option" where
  "map_find k [] = None"
| "map_find k ((k', v) # m) = (if k = k' then Some v else map_find k m)"

fun map_assign :: "int \<Rightarrow> 'v \<Rightarrow> (int \<times> 'v) list \<Rightarrow> (int \<times> 'v) list" where
  "map_assign k v [] = [(k, v)]"
| "map_assign k v ((k', v') # m) =
     (if k < k' then (k, v) # (k', v') # m
      else if k = k' then (k, v) # m
      else (k', v') # map_assign k v m)"

fun map_erase :: "int \<Rightarrow> (int \<times> 'v) list \<Rightarrow> (int \<times> 'v) list" where
  "map_erase k [] = []"
| "map_erase k ((k', v) # m) = (if k = k' then map_erase k m else (k', v) # map_erase k m)"

text \<open>
  The constructor counts the bits of \<^verbatim>\<open>BLOCK_SIZE / 2\<close> by repeated halving
  (\<^verbatim>\<open>for (int size = BLOCK_SIZE/2; size > 0; addressShift++) size /= 2;\<close>), fills
  \<^verbatim>\<open>data_list\<close> with \<^verbatim>\<open>-1\<close> and sets \<^verbatim>\<open>sequential_offset = 0\<close>. It leaves
  \<^verbatim>\<open>sequential_address\<close> and \<^verbatim>\<open>sequential_logical_address\<close> as they happen to be, so
  these two are arguments of the model's constructor.
\<close>

fun halvings :: "nat \<Rightarrow> nat" where
  "halvings n = (if n = 0 then 0 else Suc (halvings (n div 2)))"

declare halvings.simps [simp del]

definition FtlImpl_Fast :: "Config \<Rightarrow> Manager \<Rightarrow> int \<Rightarrow> int \<Rightarrow> Ftl" where
  "FtlImpl_Fast cfg m seq_addr seq_logical =
     \<lparr> addressShift = halvings (unat (BLOCK_SIZE cfg) div 2),
       data_list = (\<lambda>_. - 1),
       log_map = [],
       sequential_address = seq_addr,
       sequential_logical_address = seq_logical,
       sequential_offset = 0,
       manager = m \<rparr>"

text \<open>
  Modelled from the spec: \<^verbatim>\<open>Address::set_linear_address\<close> is in the missing header;
  the page offset of a logical address within its logical block is the address modulo
  \<^verbatim>\<open>BLOCK_SIZE\<close>.
\<close>

definition address_page :: "Config \<Rightarrow> nat \<Rightarrow> nat" where
  "address_page cfg a = a mod unat (BLOCK_SIZE cfg)"

definition lookup_block :: "Ftl \<Rightarrow> nat \<Rightarrow> int" where
  "lookup_block s a = int (drop_bit (addressShift s) a)"

subsection \<open>read\<close>

definition read :: "Config \<Rightarrow> Controller \<Rightarrow> Event \<Rightarrow> Ftl \<Rightarrow> status \<times> Event \<times> Ftl" where
  "read cfg ctl event s =
     (let lookupBlock = lookup_block s (logical_address event);
          page = address_page cfg (logical_address event);
          logBlock = map_find lookupBlock (log_map s)
      in
        if data_list s lookupBlock = - 1 \<and> logBlock \<noteq> None \<and> pages (the logBlock) page = - 1
        then (FAILURE, event\<lparr> address := 0 \<rparr>, s)
        else if logBlock \<noteq> None \<and> pages (the logBlock) page \<noteq> - 1
        then
          (let event' = event\<lparr> address := lb_address (the logBlock) + pages (the logBlock) page \<rparr>
           in (issue ctl event', event', s\<lparr> manager := simulate_map_read (manager s) \<rparr>))
        else
          (let event' = event\<lparr> address := data_list s lookupBlock
                                   + int (logical_address event mod unat (BLOCK_SIZE cfg)) \<rparr>
           in (issue ctl event', event', s\<lparr> manager := simulate_map_read (manager s) \<rparr>)))"

subsection \<open>Log-block allocation and write\<close>

text \<open>
  In \<^verbatim>\<open>allocate_new_logblock\<close> the branch for a full \<^verbatim>\<open>log_map\<close> only prints the first
  entry; the call of \<^verbatim>\<open>random_merge\<close> there is commented out, so the branch changes
  nothing. The parameter \<^verbatim>\<open>logBlock\<close> is passed by value and overwritten at once.
\<close>

definition allocate_new_logblock :: "Config \<Rightarrow> int \<Rightarrow> Event \<Rightarrow> Ftl \<Rightarrow> Ftl" where
  "allocate_new_logblock cfg logicalBlockAddress event s =
     (let s0 = (if length (log_map s) \<ge> PAGE_MAX_LOG cfg then s else s);
          (a, m) = get_free_block LOG (manager s0);
          logBlock = new_LogPageBlock\<lparr> lb_address := a \<rparr>
      in s0\<lparr> log_map := map_assign logicalBlockAddress logBlock (log_map s0), manager := m \<rparr>)"

definition dispose_logblock :: "int \<Rightarrow> Ftl \<Rightarrow> Ftl" where
  "dispose_logblock logicalBlockAddress s =
     s\<lparr> log_map := map_erase logicalBlockAddress (log_map s) \<rparr>"

text \<open>\<^verbatim>\<open>FtlImpl_Fast::write\<close>; the name \<open>write\<close> is taken by Isabelle.\<close>

definition write_event :: "Config \<Rightarrow> Controller \<Rightarrow> Event \<Rightarrow> Ftl \<Rightarrow> error + (status \<times> Event \<times> Ftl)" where
  "write_event cfg ctl event s =
     (let logicalBlockAddress = lookup_block s (logical_address event);
          s1 = (if map_find logicalBlockAddress (log_map s) = None
                then allocate_new_logblock cfg logicalBlockAddress event s else s)
      in case map_find logicalBlockAddress (log_map s1) of
           None \<Rightarrow> Inl NullDereference
         | Some logBlock \<Rightarrow>
             if get_block_state ctl (lb_address logBlock) = INACTIVE then Inl AssertionFailed
             else if issue ctl event = FAILURE then Inr (FAILURE, event, s1)
             else Inr (SUCCESS, consolidate_metaevent ctl event, s1))"

subsection \<open>Switch and merge operations\<close>

definition switch_sequential :: "int \<Rightarrow> Event \<Rightarrow> Ftl \<Rightarrow> Event \<times> Ftl" where
  "switch_sequential logicalBlockAddress event s =
     (let m1 = (if data_list s logicalBlockAddress \<noteq> - 1
                then invalidate (data_list s logicalBlockAddress) DATA (manager s)
                else manager s);
          (a, m2) = get_free_block DATA m1
      in (event,
          s\<lparr> data_list := (data_list s)(logicalBlockAddress := sequential_address s),
             sequential_offset := 0,
             sequential_logical_address := - 1,
             sequential_address := a,
             manager := simulate_map_write m2 \<rparr>))"

text \<open>
  The two events a merge creates for one slot: \<^verbatim>\<open>new Event(READ, ...)\<close> with the read
  address, and \<^verbatim>\<open>new Event(WRITE, ...)\<close> with the payload taken from the read address
  and the address in the new data block.
\<close>

definition read_op :: "Event \<Rightarrow> int \<Rightarrow> Op" where
  "read_op event readAddress =
     \<lparr> op_type = READ, op_logical_address = logical_address event,
       op_address = readAddress, op_payload = None \<rparr>"

definition write_op :: "Event \<Rightarrow> int \<Rightarrow> int \<Rightarrow> Op" where
  "write_op event readAddress dataBlockAddress =
     \<lparr> op_type = WRITE, op_logical_address = logical_address event,
       op_address = dataBlockAddress, op_payload = Some readAddress \<rparr>"

text \<open>
  The loop \<^verbatim>\<open>for (uint i=0;i<BLOCK_SIZE;i++)\<close> of \<^verbatim>\<open>merge_sequential\<close>; \<open>eventOps\<close> is
  the chain built so far.
\<close>

function merge_sequential_loop ::
  "Config \<Rightarrow> Controller \<Rightarrow> Ftl \<Rightarrow> int \<Rightarrow> Event \<Rightarrow> int \<Rightarrow> nat \<Rightarrow> Op list \<Rightarrow> Op list" where
  "merge_sequential_loop cfg ctl s logicalBlockAddress event newDataBlock i eventOps =
     (if i < unat (BLOCK_SIZE cfg) then
        (let seq = sequential_address s + int i in
         if get_state ctl seq = VALID then
           merge_sequential_loop cfg ctl s logicalBlockAddress event newDataBlock (Suc i)
             (eventOps @ [read_op event seq, write_op event seq (newDataBlock + int i)])
         else if data_list s logicalBlockAddress \<noteq> - 1 then
           (let readAddress = data_list s logicalBlockAddress + int i in
            merge_sequential_loop cfg ctl s logicalBlockAddress event newDataBlock (Suc i)
              (eventOps @ [read_op event readAddress,
                           write_op event readAddress (newDataBlock + int i)]))
         else
           merge_sequential_loop cfg ctl s logicalBlockAddress event newDataBlock (Suc i) eventOps)
      else eventOps)"
  by pat_completeness auto
termination
  by (relation "measure (\<lambda>(cfg, ctl, s, l, event, d, i, ops). unat (BLOCK_SIZE cfg) - i)") auto

declare merge_sequential_loop.simps [simp del]

definition merge_sequential :: "Config \<Rightarrow> Controller \<Rightarrow> int \<Rightarrow> Event \<Rightarrow> Ftl \<Rightarrow> Event \<times> Ftl" where
  "merge_sequential cfg ctl logicalBlockAddress event s =
     (if sequential_logical_address s = - 1 then (event, s)
      else
        (let (newDataBlock, m1) = get_free_block DATA (manager s);
             eventOps = merge_sequential_loop cfg ctl s logicalBlockAddress event newDataBlock 0
                          (next_events event);
             m2 = invalidate (sequential_address s) LOG m1;
             m3 = (if data_list s logicalBlockAddress \<noteq> - 1
                   then invalidate (data_list s logicalBlockAddress) DATA m2 else m2)
         in (event\<lparr> next_events := eventOps \<rparr>,
             s\<lparr> data_list := (data_list s)(logicalBlockAddress := newDataBlock),
                manager := simulate_map_write (insert_events m3) \<rparr>)))"

text \<open>
  The loop of \<^verbatim>\<open>random_merge\<close>. The test reads \<^verbatim>\<open>logBlock->pages[eventAddress.page]\<close>,
  the entry of the page the triggering event addresses, and the read address is
  \<^verbatim>\<open>logBlock->address.real_address + logBlock->pages[i]\<close>.
\<close>

function random_merge_loop ::
  "Config \<Rightarrow> LogPageBlock \<Rightarrow> Ftl \<Rightarrow> int \<Rightarrow> Event \<Rightarrow> int \<Rightarrow> nat \<Rightarrow> Op list \<Rightarrow> Op list" where
  "random_merge_loop cfg logBlock s logicalBlockAddress event newDataBlock i eventOps =
     (if i < unat (BLOCK_SIZE cfg) then
        (if pages logBlock (address_page cfg (logical_address event)) \<noteq> - 1 then
           (let readAddress = lb_address logBlock + pages logBlock i in
            random_merge_loop cfg logBlock s logicalBlockAddress event newDataBlock (Suc i)
              (eventOps @ [read_op event readAddress,
                           write_op event readAddress (newDataBlock + int i)]))
         else if data_list s logicalBlockAddress \<noteq> - 1 then
           (let readAddress = data_list s logicalBlockAddress + int i in
            random_merge_loop cfg logBlock s logicalBlockAddress event newDataBlock (Suc i)
              (eventOps @ [read_op event readAddress,
                           write_op event readAddress (newDataBlock + int i)]))
         else
           random_merge_loop cfg logBlock s logicalBlockAddress event newDataBlock (Suc i) eventOps)
      else eventOps)"
  by pat_completeness auto
termination
  by (relation "measure (\<lambda>(cfg, lb, s, l, event, d, i, ops). unat (BLOCK_SIZE cfg) - i)") auto

declare random_merge_loop.simps [simp del]

definition random_merge ::
  "Config \<Rightarrow> LogPageBlock \<Rightarrow> int \<Rightarrow> Event \<Rightarrow> Ftl \<Rightarrow> bool \<times> Event \<times> Ftl" where
  "random_merge cfg logBlock logicalBlockAddress event s =
     (let (newDataBlock, m1) = get_free_block DATA (manager s);
          eventOps = random_merge_loop cfg logBlock s logicalBlockAddress event newDataBlock 0
                       (next_events event);
          m2 = invalidate (lb_address logBlock) LOG m1;
          m3 = (if data_list s logicalBlockAddress \<noteq> - 1
                then invalidate (data_list s logicalBlockAddress) DATA m2 else m2);
          s1 = s\<lparr> data_list := (data_list s)(logicalBlockAddress := newDataBlock),
                  manager := simulate_map_write (insert_events m3) \<rparr>
      in (True, event\<lparr> next_events := eventOps \<rparr>, dispose_logblock logicalBlockAddress s1))"

subsection \<open>write\_to\_log\_block\<close>

text \<open>
  The last branch (the owner of the sequential log block is another logical block) holds
  only comments in the source. \<^verbatim>\<open>FtlImpl_Fast::write\<close> above does not call this
  function.
\<close>

definition write_to_log_block ::
  "Config \<Rightarrow> Controller \<Rightarrow> Event \<Rightarrow> int \<Rightarrow> Ftl \<Rightarrow> bool \<times> Event \<times> Ftl" where
  "write_to_log_block cfg ctl event logicalBlockAddress s =
     (let lbnOffset = (word_of_nat (logical_address event mod unat (BLOCK_SIZE cfg)) :: uint) in
      if lbnOffset = 0 then
        (let (event1, s1) =
               (if sequential_offset s = BLOCK_SIZE cfg - 1
                then switch_sequential logicalBlockAddress event s
                else merge_sequential cfg ctl logicalBlockAddress event s);
             (a, m) = get_free_block DATA (manager s1);
             s2 = s1\<lparr> sequential_address := a,
                      sequential_logical_address := logicalBlockAddress,
                      sequential_offset := 1,
                      manager := m \<rparr>
         in (True, event1\<lparr> address := get_free_page ctl a \<rparr>, s2))
      else if sequential_logical_address s = logicalBlockAddress then
        (if lbnOffset = sequential_offset s then
           (True, event\<lparr> address := get_free_page ctl (sequential_address s) \<rparr>,
            s\<lparr> sequential_offset := sequential_offset s + 1 \<rparr>)
         else
           (let (event1, s1) = merge_sequential cfg ctl logicalBlockAddress event s;
                (a, m) = get_free_block DATA (manager s1)
            in (True, event1,
                s1\<lparr> sequential_offset := 1,
                    sequential_address := a,
                    sequential_logical_address := logicalBlockAddress,
                    manager := m \<rparr>)))
      else (True, event, s))"

subsection \<open>The merges as the specification words them\<close>

text \<open>
  A copy of one page is a READ addressed to the source followed by a WRITE addressed to
  the target that carries the data of the source; both bear the logical address of the
  triggering event.

  What one slot \<open>i\<close> of a sequential merge into the data block \<open>d\<close> contributes to the
  chain: the copy of page \<open>i\<close> of the sequential block into slot \<open>i\<close> of \<open>d\<close> when that
  page is VALID, else the copy of page \<open>i\<close> of the data block when the logical block is
  mapped, else nothing.
\<close>

definition copy_page :: "nat \<Rightarrow> int \<Rightarrow> int \<Rightarrow> Op list" where
  "copy_page logical source target =
     [\<lparr> op_type = READ, op_logical_address = logical, op_address = source, op_payload = None \<rparr>,
      \<lparr> op_type = WRITE, op_logical_address = logical, op_address = target,
        op_payload = Some source \<rparr>]"

definition sequential_merge_slot ::
  "Controller \<Rightarrow> Ftl \<Rightarrow> int \<Rightarrow> Event \<Rightarrow> int \<Rightarrow> nat \<Rightarrow> Op list" where
  "sequential_merge_slot ctl s l event d i =
     (if get_state ctl (sequential_address s + int i) = VALID
      then copy_page (logical_address event) (sequential_address s + int i) (d + int i)
      else if data_list s l \<noteq> - 1
      then copy_page (logical_address event) (data_list s l + int i) (d + int i)
      else [])"

text \<open>
  What one slot \<open>i\<close> of a random merge contributes when every page offset is followed on
  its own: the log block's copy of page \<open>i\<close> when the log block holds page \<open>i\<close>, else
  the page of the data block when the logical block is mapped, else nothing.
\<close>

definition random_merge_slot ::
  "LogPageBlock \<Rightarrow> Ftl \<Rightarrow> int \<Rightarrow> Event \<Rightarrow> int \<Rightarrow> nat \<Rightarrow> Op list" where
  "random_merge_slot logBlock s l event d i =
     (if pages logBlock i \<noteq> - 1
      then [read_op event (lb_address logBlock + pages logBlock i),
            write_op event (lb_address logBlock + pages logBlock i) (d + int i)]
      else if data_list s l \<noteq> - 1
      then [read_op event (data_list s l + int i), write_op event (data_list s l + int i) (d + int i)]
      else [])"

subsection \<open>A small device for concrete runs\<close>

text \<open>
  Four pages per block and two random log blocks, as in the end-to-end scenarios; the
  controller accepts every event and the free list hands out the blocks at the linear
  addresses 100, 104, 108, ...
\<close>

definition small_config :: Config where
  "small_config =
     \<lparr> SSD_SIZE = 1, PACKAGE_SIZE = 1, DIE_SIZE = 1, PLANE_SIZE = 8,
       BLOCK_SIZE = 4, BLOCK_ERASES = 1000, PAGE_MAX_LOG = 2 \<rparr>"

definition small_manager :: Manager where
  "small_manager = \<lparr> free_sequence = (\<lambda>n. 100 + 4 * int n), handed_out = 0, calls = [] \<rparr>"

definition small_controller :: Controller where
  "small_controller =
     \<lparr> issue = (\<lambda>_. SUCCESS), get_free_page = (\<lambda>a. a), get_block_state = (\<lambda>_. FREE),
       get_state = (\<lambda>a. if a = 40 \<or> a = 41 then VALID else EMPTY),
       consolidate_metaevent = (\<lambda>e. e) \<rparr>"

definition small_ftl :: Ftl where
  "small_ftl = FtlImpl_Fast small_config small_manager 0 (- 1)"

definition event_at :: "event_type \<Rightarrow> nat \<Rightarrow> Event" where
  "event_at t a = \<lparr> event_type = t, logical_address = a, address = 0, next_events = [] \<rparr>"

text \<open>A trace driver: the writes of a list of logical addresses, one after the other.\<close>

fun write_all :: "Config \<Rightarrow> Controller \<Rightarrow> nat list \<Rightarrow> Ftl \<Rightarrow> error + Ftl" where
  "write_all cfg ctl [] s = Inr s"
| "write_all cfg ctl (a # as) s =
     (case write_event cfg ctl (event_at WRITE a) s of
        Inl e \<Rightarrow> Inl e
      | Inr (st, ev, s') \<Rightarrow> write_all cfg ctl as s')"

definition log_map_keys :: "error + Ftl \<Rightarrow> int list" where
  "log_map_keys r = (case r of Inl e \<Rightarrow> [] | Inr s \<Rightarrow> map fst (log_map s))"

text \<open>
  The sequential log block at linear address 40 belongs to logical block 0 and has
  taken three in-order writes.
\<close>

definition full_sequential_ftl :: Ftl where
  "full_sequential_ftl =
     small_ftl\<lparr> sequential_address := 40, sequential_logical_address := 0, sequential_offset := 3 \<rparr>"

text \<open>
  Logical block 0 has its data block at 40 and a random log block at 8 that holds page 0
  only, in its slot 0.
\<close>

definition small_log_block :: LogPageBlock where
  "small_log_block = \<lparr> lb_address = 8, pages = (\<lambda>_. - 1)(0 := 0) \<rparr>"

definition random_log_ftl :: Ftl where
  "random_log_ftl =
     small_ftl\<lparr> data_list := (data_list small_ftl)(0 := 40), log_map := [(0, small_log_block)] \<rparr>"

text \<open>
  A second trace driver: every logical address of the list goes through
  \<^verbatim>\<open>write_to_log_block\<close> as a write event of its own, with the logical block the caller
  computes from it. The events come back in the order of the calls.
\<close>

fun write_to_log_block_all ::
  "Config \<Rightarrow> Controller \<Rightarrow> nat list \<Rightarrow> Ftl \<Rightarrow> Event list \<times> Ftl" where
  "write_to_log_block_all cfg ctl [] s = ([], s)"
| "write_to_log_block_all cfg ctl (a # as) s =
     (let (ok, event, s1) = write_to_log_block cfg ctl (event_at WRITE a) (lookup_block s a) s;
          (events, s2) = write_to_log_block_all cfg ctl as s1
      in (event # events, s2))"

text \<open>
  The device while the stream 0, 2, 1, 2 is written to logical block 0: the free list
  hands out the block at 100 for the first write, whose page 0 is then VALID.
\<close>

definition trace_controller :: Controller where
  "trace_controller =
     small_controller\<lparr> get_state := (\<lambda>a. if a = 100 then VALID else EMPTY) \<rparr>"

definition broken_sequence :: "Event list \<times> Ftl" where
  "broken_sequence = write_to_log_block_all small_config trace_controller [0, 2, 1, 2] small_ftl"

text \<open>
  A freshly constructed translation layer in zero-filled memory: the two members the
  constructor does not set hold 0.
\<close>

definition zeroed_ftl :: Ftl where
  "zeroed_ftl = FtlImpl_Fast small_config small_manager 0 0"

section \<open>The block manager (ssd\_block\_manager\_parent.cpp)\<close>

subsection \<open>Addresses, blocks and events\<close>

datatype address_valid = NONE | PACKAGE | DIE | PLANE | BLOCK | PAGE

record Address =
  package :: nat
  die :: nat
  plane :: nat
  block :: nat
  page :: nat
  valid :: address_valid

text \<open>
  Modelled from the spec: the constructor \<^verbatim>\<open>Address(linear, granularity)\<close>, the default
  constructor and \<^verbatim>\<open>get_linear_address\<close> are in the missing header. A linear address is
  the dense encoding of the tuple with the page as the least significant digit, and the
  two conversions are inverse to each other.
\<close>

definition Address_of_linear :: "Config \<Rightarrow> nat \<Rightarrow> address_valid \<Rightarrow> Address" where
  "Address_of_linear cfg a v =
     (let bs = unat (BLOCK_SIZE cfg) in
      \<lparr> package = (a div (bs * PLANE_SIZE cfg * DIE_SIZE cfg * PACKAGE_SIZE cfg)) mod SSD_SIZE cfg,
        die = (a div (bs * PLANE_SIZE cfg * DIE_SIZE cfg)) mod PACKAGE_SIZE cfg,
        plane = (a div (bs * PLANE_SIZE cfg)) mod DIE_SIZE cfg,
        block = (a div bs) mod PLANE_SIZE cfg,
        page = a mod bs,
        valid = v \<rparr>)"

definition get_linear_address :: "Config \<Rightarrow> Address \<Rightarrow> nat" where
  "get_linear_address cfg a =
     page a + unat (BLOCK_SIZE cfg) *
       (block a + PLANE_SIZE cfg * (plane a + DIE_SIZE cfg * (die a + PACKAGE_SIZE cfg * package a)))"

definition Address_default :: Address where
  "Address_default = \<lparr> package = 0, die = 0, plane = 0, block = 0, page = 0, valid = NONE \<rparr>"

text \<open>
  A \<^verbatim>\<open>Block\<close> of the device with the members the block manager reads through
  \<^verbatim>\<open>get_physical_address\<close>, \<^verbatim>\<open>get_state\<close>, \<^verbatim>\<open>get_pages_valid\<close>,
  \<^verbatim>\<open>get_pages_invalid\<close>, \<^verbatim>\<open>get_erases_remaining\<close> and \<^verbatim>\<open>getPages()[i].get_state()\<close>.
  A \<^verbatim>\<open>Block*\<close> is a natural number, ordered as the pointers are; the device resolves
  the four indices of \<^verbatim>\<open>ssd.getPackages()[p].getDies()[d].getPlanes()[pl].getBlocks()[b]\<close>
  to such a pointer, or to nothing when an index is outside its array.
\<close>

type_synonym block_ptr = nat

record Block =
  physical_address :: nat
  state :: block_state
  pages_valid :: uint
  pages_invalid :: uint
  erases_remaining :: uint
  page_states :: "nat \<Rightarrow> page_state"

record Ssd =
  getBlock :: "nat \<Rightarrow> nat \<Rightarrow> nat \<Rightarrow> nat \<Rightarrow> block_ptr option"
  deref :: "block_ptr \<Rightarrow> Block"

text \<open>
  An \<^verbatim>\<open>Event\<close> as the block manager sees it. Simulated time is a \<^verbatim>\<open>double\<close> in the
  source and a real number here; it is only handed on to the events the block manager
  schedules.
\<close>

record BmEvent =
  get_event_type :: event_type
  get_logical_address :: nat
  get_address :: Address
  get_replace_address :: Address
  get_start_time :: real
  get_time_taken :: real
  is_garbage_collection_op :: bool

text \<open>
  Modelled from the spec: the constructor \<^verbatim>\<open>Event(type, logical_address, size,
  start_time)\<close> is in the missing header; a new event has default addresses, has taken no
  time and is not a garbage-collection operation.
\<close>

definition Event_new :: "event_type \<Rightarrow> nat \<Rightarrow> real \<Rightarrow> BmEvent" where
  "Event_new t l start_time =
     \<lparr> get_event_type = t, get_logical_address = l, get_address = Address_default,
       get_replace_address = Address_default, get_start_time = start_time,
       get_time_taken = 0, is_garbage_collection_op = False \<rparr>"

text \<open>
  The calls of \<^verbatim>\<open>IOScheduler::instance()\<close> are written to a log in program order.
\<close>

datatype scheduler_call =
    schedule_independent_event BmEvent
  | schedule_dependent_events "BmEvent list"

subsection \<open>The state of Block\_manager\_parent\<close>

text \<open>
  A \<^verbatim>\<open>std::set<Block*>\<close> is the list of its elements in ascending order, which is the
  order in which the source iterates over it.
\<close>

record Block_manager =
  ssd :: Ssd
  free_block_pointers :: "Address list list"
  free_blocks :: "Address list list list list"
  all_blocks :: "block_ptr list"
  greedy_gc :: bool
  max_age :: uint
  min_age :: uint
  num_age_classes :: nat
  blocks_with_min_age :: "block_ptr list"
  num_free_pages :: uint
  num_available_pages_for_new_writes :: uint
  gc_candidates :: "block_ptr list list list list"
  scheduled :: "scheduler_call list"

definition set_insert :: "block_ptr \<Rightarrow> block_ptr list \<Rightarrow> block_ptr list" where
  "set_insert b bs = (if b \<in> set bs then bs else insort b bs)"

definition set_erase :: "block_ptr \<Rightarrow> block_ptr list \<Rightarrow> block_ptr list" where
  "set_erase b bs = removeAll b bs"

text \<open>Indexing a vector; outside the vector there is no element.\<close>

definition vector_at :: "'a list \<Rightarrow> nat \<Rightarrow> 'a option" where
  "vector_at xs i = (if i < length xs then Some (xs ! i) else None)"

definition vector_at3 :: "'a list list list \<Rightarrow> nat \<Rightarrow> nat \<Rightarrow> nat \<Rightarrow> 'a option" where
  "vector_at3 v i j k =
     (case vector_at v i of
        None \<Rightarrow> None
      | Some vi \<Rightarrow> (case vector_at vi j of None \<Rightarrow> None | Some vij \<Rightarrow> vector_at vij k))"

definition vector_update3 :: "'a list list list \<Rightarrow> nat \<Rightarrow> nat \<Rightarrow> nat \<Rightarrow> 'a \<Rightarrow> 'a list list list" where
  "vector_update3 v i j k x = v[i := (v ! i)[j := (v ! i ! j)[k := x]]]"

subsection \<open>Age classes\<close>

text \<open>
  \<^verbatim>\<open>sort_into_age_class\<close> raises \<^verbatim>\<open>max_age\<close> when the block is older. The quotient
  \<^verbatim>\<open>(age - min_age) / (max_age - min_age)\<close> is a division of \<^verbatim>\<open>uint\<close> values, so it
  wraps, truncates and is undefined for a zero divisor; only its result becomes a
  \<^verbatim>\<open>double\<close>. The product with \<^verbatim>\<open>num_age_classes\<close> and \<^verbatim>\<open>0.99999\<close> is computed on the
  reals here; a result that does not fit a \<^verbatim>\<open>uint\<close> is undefined in C++.
\<close>

definition sort_into_age_class ::
  "Config \<Rightarrow> Address \<Rightarrow> Block_manager \<Rightarrow> error + (nat \<times> Block_manager)" where
  "sort_into_age_class cfg a s =
     (case getBlock (ssd s) (package a) (die a) (plane a) (block a) of
        None \<Rightarrow> Inl OutOfRange
      | Some b \<Rightarrow>
          (let age = BLOCK_ERASES cfg - erases_remaining (deref (ssd s) b);
               s1 = (if age > max_age s then s\<lparr> max_age := age \<rparr> else s)
           in if max_age s1 - min_age s1 = 0 then Inl DivisionByZero
              else
                (let normalized_age =
                       real (unat ((age - min_age s1) div (max_age s1 - min_age s1)));
                     klass = nat \<lfloor>normalized_age * real (num_age_classes s1) * 0.99999\<rfloor>
                 in if klass < 2 ^ 32 then Inr (klass, s1) else Inl OutOfRange)))"

text \<open>
  The age class as the specification words it, with the quotient taken on the reals.
\<close>

definition age_class_formula :: "real \<Rightarrow> real \<Rightarrow> real \<Rightarrow> real \<Rightarrow> int" where
  "age_class_formula age lo hi n = \<lfloor>(age - lo) / (hi - lo) * n * 0.99999\<rfloor>"

subsection \<open>Erase completion\<close>

definition register_erase_outcome ::
  "Config \<Rightarrow> BmEvent \<Rightarrow> status \<Rightarrow> Block_manager \<Rightarrow> error + Block_manager" where
  "register_erase_outcome cfg event st s =
     (let a = (get_address event)\<lparr> valid := PAGE, page := 0 \<rparr> in
      case sort_into_age_class cfg a s of
        Inl e \<Rightarrow> Inl e
      | Inr (age_class, s1) \<Rightarrow>
          (case vector_at3 (free_blocks s1) (package a) (die a) age_class of
             None \<Rightarrow> Inl OutOfRange
           | Some fb \<Rightarrow>
               Inr (s1\<lparr> free_blocks :=
                          vector_update3 (free_blocks s1) (package a) (die a) age_class (fb @ [a]),
                        num_free_pages := num_free_pages s1 + BLOCK_SIZE cfg,
                        num_available_pages_for_new_writes :=
                          num_available_pages_for_new_writes s1 + BLOCK_SIZE cfg \<rparr>)))"

subsection \<open>Migration and garbage collection\<close>

text \<open>
  \<^verbatim>\<open>migrate\<close>: the reverse map \<^verbatim>\<open>ftl.get_logical_address\<close> is the parameter \<open>ftl\<close>. For
  every VALID page, in ascending page order, a READ and a WRITE are scheduled as one
  dependent pair.
\<close>

definition migrate_pair :: "Config \<Rightarrow> (nat \<Rightarrow> nat) \<Rightarrow> Block \<Rightarrow> real \<Rightarrow> nat \<Rightarrow> scheduler_call" where
  "migrate_pair cfg ftl blk start_time i =
     (let addr = (Address_of_linear cfg (physical_address blk) PAGE)\<lparr> page := i \<rparr>;
          logical_address = ftl (get_linear_address cfg addr);
          read = (Event_new READ logical_address start_time)
                   \<lparr> get_address := addr, is_garbage_collection_op := True \<rparr>;
          write = (Event_new WRITE logical_address start_time)
                    \<lparr> is_garbage_collection_op := True, get_replace_address := addr \<rparr>
      in schedule_dependent_events [read, write])"

definition migrate ::
  "Config \<Rightarrow> (nat \<Rightarrow> nat) \<Rightarrow> block_ptr \<Rightarrow> real \<Rightarrow> Block_manager \<Rightarrow> error + Block_manager" where
  "migrate cfg ftl b start_time s =
     (let blk = deref (ssd s) b in
      if state blk = FREE \<or> state blk = PARTIALLY_FREE
         \<or> num_available_pages_for_new_writes s < pages_valid blk
      then Inl AssertionFailed
      else Inr (s\<lparr> num_available_pages_for_new_writes :=
                     num_available_pages_for_new_writes s - pages_valid blk,
                   scheduled := scheduled s @
                     map (migrate_pair cfg ftl blk start_time)
                       (filter (\<lambda>i. page_states blk i = VALID) [0..<unat (BLOCK_SIZE cfg)]) \<rparr>))"

text \<open>
  The two nested loops of \<^verbatim>\<open>choose_gc_victim\<close>, with the pair
  \<^verbatim>\<open>(min_valid_pages, best_block)\<close> they update; \<^verbatim>\<open>NULL\<close> is \<open>None\<close>.
\<close>

fun scan_set ::
  "(block_ptr \<Rightarrow> Block) \<Rightarrow> block_ptr list \<Rightarrow> uint \<times> block_ptr option \<Rightarrow> uint \<times> block_ptr option" where
  "scan_set d [] acc = acc"
| "scan_set d (candidate # rest) (min_valid_pages, best_block) =
     (if pages_valid (d candidate) < min_valid_pages
      then scan_set d rest (pages_valid (d candidate), Some candidate)
      else scan_set d rest (min_valid_pages, best_block))"

fun scan_candidates ::
  "(block_ptr \<Rightarrow> Block) \<Rightarrow> block_ptr list list \<Rightarrow> uint \<times> block_ptr option
     \<Rightarrow> uint \<times> block_ptr option" where
  "scan_candidates d [] acc = acc"
| "scan_candidates d (c # cs) acc = scan_candidates d cs (scan_set d c acc)"

definition best_block :: "Config \<Rightarrow> block_ptr list list \<Rightarrow> Block_manager \<Rightarrow> block_ptr option" where
  "best_block cfg candidates s =
     snd (scan_candidates (deref (ssd s)) candidates (BLOCK_SIZE cfg, None))"

text \<open>The body of \<^verbatim>\<open>if (best_block != NULL)\<close> in \<^verbatim>\<open>choose_gc_victim\<close>.\<close>

definition collect_victim ::
  "Config \<Rightarrow> (nat \<Rightarrow> nat) \<Rightarrow> block_ptr \<Rightarrow> real \<Rightarrow> Block_manager \<Rightarrow> error + Block_manager" where
  "collect_victim cfg ftl b start_time s =
     (let addr = Address_of_linear cfg (physical_address (deref (ssd s) b)) BLOCK in
      case sort_into_age_class cfg addr s of
        Inl e \<Rightarrow> Inl e
      | Inr (age_class, s1) \<Rightarrow>
          (case vector_at3 (gc_candidates s1) (package addr) (die addr) age_class of
             None \<Rightarrow> Inl OutOfRange
           | Some cs \<Rightarrow>
               if b \<in> set cs
               then migrate cfg ftl b start_time
                      (s1\<lparr> gc_candidates :=
                             vector_update3 (gc_candidates s1) (package addr) (die addr) age_class
                               (set_erase b cs) \<rparr>)
               else Inl AssertionFailed))"

definition choose_gc_victim ::
  "Config \<Rightarrow> (nat \<Rightarrow> nat) \<Rightarrow> block_ptr list list \<Rightarrow> real \<Rightarrow> Block_manager
     \<Rightarrow> error + Block_manager" where
  "choose_gc_victim cfg ftl candidates start_time s =
     (case best_block cfg candidates s of
        None \<Rightarrow> Inr s
      | Some b \<Rightarrow> collect_victim cfg ftl b start_time s)"

text \<open>
  The four overloads of \<^verbatim>\<open>perform_gc\<close> differ in the candidate sets they copy into
  \<^verbatim>\<open>candidates\<close>; which overload is called is an argument of the model.
\<close>

datatype gc_scope =
    Whole_device
  | One_die nat nat
  | One_class nat
  | One_die_class nat nat nat

fun candidates_of :: "Config \<Rightarrow> gc_scope \<Rightarrow> Block_manager \<Rightarrow> block_ptr list list option" where
  "candidates_of cfg Whole_device s =
     those (concat (map (\<lambda>i. concat (map (\<lambda>j. map (\<lambda>k. vector_at3 (gc_candidates s) i j k)
                                                 [0..<num_age_classes s])
                                       [0..<PACKAGE_SIZE cfg]))
                     [0..<SSD_SIZE cfg]))"
| "candidates_of cfg (One_die package_id die_id) s =
     (case vector_at (gc_candidates s) package_id of
        None \<Rightarrow> None
      | Some dies \<Rightarrow> vector_at dies die_id)"
| "candidates_of cfg (One_class klass) s =
     those (concat (map (\<lambda>i. map (\<lambda>j. vector_at3 (gc_candidates s) i j klass) [0..<PACKAGE_SIZE cfg])
                     [0..<SSD_SIZE cfg]))"
| "candidates_of cfg (One_die_class package_id die_id klass) s =
     (case vector_at3 (gc_candidates s) package_id die_id klass of
        None \<Rightarrow> None
      | Some c \<Rightarrow> Some [c])"

definition perform_gc ::
  "Config \<Rightarrow> (nat \<Rightarrow> nat) \<Rightarrow> gc_scope \<Rightarrow> real \<Rightarrow> Block_manager \<Rightarrow> error + Block_manager" where
  "perform_gc cfg ftl scope start_time s =
     (case candidates_of cfg scope s of
        None \<Rightarrow> Inl OutOfRange
      | Some candidates \<Rightarrow> choose_gc_victim cfg ftl candidates start_time s)"

subsection \<open>Write completion\<close>

text \<open>
  The two statements at the end of \<^verbatim>\<open>register_write_outcome\<close>. The test of the first
  reads the candidate set only when the block is ACTIVE; in that case either the test
  or the insertion indexes \<^verbatim>\<open>gc_candidates\<close>.
\<close>

definition insert_gc_candidate ::
  "Config \<Rightarrow> Address \<Rightarrow> nat \<Rightarrow> block_ptr \<Rightarrow> Block_manager \<Rightarrow> error + Block_manager" where
  "insert_gc_candidate cfg ra age_class b s =
     (let block = deref (ssd s) b in
      if state block = ACTIVE then
        (case vector_at3 (gc_candidates s) (package ra) (die ra) age_class of
           None \<Rightarrow> Inl OutOfRange
         | Some cs \<Rightarrow>
             if pages_invalid block < BLOCK_SIZE cfg div 4 \<or> length cs = 0
             then Inr (s\<lparr> gc_candidates :=
                            vector_update3 (gc_candidates s) (package ra) (die ra) age_class
                              (set_insert b cs) \<rparr>)
             else Inr s)
      else Inr s)"

definition erase_if_invalid ::
  "Config \<Rightarrow> BmEvent \<Rightarrow> Address \<Rightarrow> nat \<Rightarrow> block_ptr \<Rightarrow> Block_manager \<Rightarrow> error + Block_manager" where
  "erase_if_invalid cfg event ra age_class b s =
     (let block = deref (ssd s) b in
      if pages_invalid block = BLOCK_SIZE cfg then
        (let erase = (Event_new ERASE 0 (get_start_time event + get_time_taken event))
                       \<lparr> get_address := Address_of_linear cfg (physical_address block) BLOCK,
                         is_garbage_collection_op := True \<rparr>
         in case vector_at3 (gc_candidates s) (package ra) (die ra) age_class of
              None \<Rightarrow> Inl OutOfRange
            | Some cs \<Rightarrow>
                Inr (s\<lparr> gc_candidates :=
                          vector_update3 (gc_candidates s) (package ra) (die ra) age_class
                            (set_erase b cs),
                        scheduled := scheduled s @ [schedule_independent_event erase] \<rparr>))
      else Inr s)"

definition register_write_outcome ::
  "Config \<Rightarrow> (nat \<Rightarrow> nat) \<Rightarrow> BmEvent \<Rightarrow> status \<Rightarrow> Block_manager \<Rightarrow> error + Block_manager" where
  "register_write_outcome cfg ftl event st s =
     (if num_free_pages s = 0 then Inl AssertionFailed
      else
        (let s1 = s\<lparr> num_free_pages := num_free_pages s - 1 \<rparr> in
         if \<not> is_garbage_collection_op event \<and> num_available_pages_for_new_writes s1 = 0
         then Inl AssertionFailed
         else
           (let s2 = (if \<not> is_garbage_collection_op event
                      then s1\<lparr> num_available_pages_for_new_writes :=
                                 num_available_pages_for_new_writes s1 - 1 \<rparr>
                      else s1)
            in case (if num_free_pages s2 \<le> BLOCK_SIZE cfg
                     then perform_gc cfg ftl Whole_device
                            (get_start_time event + get_time_taken event) s2
                     else Inr s2) of
                 Inl e \<Rightarrow> Inl e
               | Inr s3 \<Rightarrow>
                   (let ra = get_replace_address event in
                    case getBlock (ssd s3) (package ra) (die ra) (plane ra) (block ra) of
                      None \<Rightarrow> Inl OutOfRange
                    | Some b \<Rightarrow>
                        (case sort_into_age_class cfg ra s3 of
                           Inl e \<Rightarrow> Inl e
                         | Inr (age_class, s4) \<Rightarrow>
                             (case insert_gc_candidate cfg ra age_class b s4 of
                                Inl e \<Rightarrow> Inl e
                              | Inr s5 \<Rightarrow> erase_if_invalid cfg event ra age_class b s5))))))"

subsection \<open>Wear levelling\<close>

text \<open>
  \<^verbatim>\<open>update_blocks_with_min_age\<close> and \<^verbatim>\<open>Wear_Level\<close>. The variable \<^verbatim>\<open>min_age\<close> that
  \<^verbatim>\<open>Wear_Level\<close> declares hides the member of the same name, so the member is not
  written. Reading \<^verbatim>\<open>*blocks_with_min_age.begin()\<close> of an empty set is undefined.
\<close>

fun update_blocks_with_min_age ::
  "Config \<Rightarrow> (block_ptr \<Rightarrow> Block) \<Rightarrow> uint \<Rightarrow> block_ptr list \<Rightarrow> block_ptr list \<Rightarrow> block_ptr list" where
  "update_blocks_with_min_age cfg d age [] acc = acc"
| "update_blocks_with_min_age cfg d age (b # bs) acc =
     update_blocks_with_min_age cfg d age bs
       (if BLOCK_ERASES cfg - erases_remaining (d b) = age then set_insert b acc else acc)"

fun wear_level_queue ::
  "Config \<Rightarrow> (nat \<Rightarrow> nat) \<Rightarrow> real \<Rightarrow> block_ptr list \<Rightarrow> Block_manager \<Rightarrow> error + Block_manager" where
  "wear_level_queue cfg ftl t [] s = Inr s"
| "wear_level_queue cfg ftl t (target # blocks_to_wl) s =
     (if num_available_pages_for_new_writes s > pages_valid (deref (ssd s) target)
      then
        (case migrate cfg ftl target t
                (s\<lparr> num_available_pages_for_new_writes :=
                       num_available_pages_for_new_writes s - pages_valid (deref (ssd s) target) \<rparr>) of
           Inl e \<Rightarrow> Inl e
         | Inr s1 \<Rightarrow> wear_level_queue cfg ftl t blocks_to_wl s1)
      else Inr s)"

definition Wear_Level ::
  "Config \<Rightarrow> (nat \<Rightarrow> nat) \<Rightarrow> BmEvent \<Rightarrow> Block_manager \<Rightarrow> error + Block_manager" where
  "Wear_Level cfg ftl event s =
     (let pba = get_address event in
      case getBlock (ssd s) (package pba) (die pba) (plane pba) (block pba) of
        None \<Rightarrow> Inl OutOfRange
      | Some b \<Rightarrow>
          (case blocks_with_min_age s of
             [] \<Rightarrow> Inl NullDereference
           | first # others \<Rightarrow>
               (let d = deref (ssd s);
                    age = BLOCK_ERASES cfg - erases_remaining (d b);
                    local_min_age = BLOCK_ERASES cfg - erases_remaining (d first);
                    t = get_start_time event + get_time_taken event
                in if age > max_age s then
                     (if age - local_min_age > 500
                      then wear_level_queue cfg ftl t (blocks_with_min_age s)
                             (s\<lparr> max_age := age,
                                 blocks_with_min_age :=
                                   update_blocks_with_min_age cfg d (local_min_age + 1)
                                     (all_blocks s) (blocks_with_min_age s) \<rparr>)
                      else Inr (s\<lparr> max_age := age \<rparr>))
                   else if b \<in> set (blocks_with_min_age s) \<and> length (blocks_with_min_age s) > 1
                   then Inr (s\<lparr> blocks_with_min_age := set_erase b (blocks_with_min_age s) \<rparr>)
                   else if b \<in> set (blocks_with_min_age s) \<and> length (blocks_with_min_age s) = 1
                   then Inr (s\<lparr> blocks_with_min_age :=
                                  update_blocks_with_min_age cfg d local_min_age (all_blocks s)
                                    (set_erase b (blocks_with_min_age s)) \<rparr>)
                   else Inr s)))"

subsection \<open>The victim as the specification words it\<close>

text \<open>
  \<open>v\<close> is the block with the fewest valid pages of the scanned candidates \<open>cs\<close>, ties
  broken by iteration order: it is a candidate, no candidate has fewer valid pages, and
  every candidate met before its first occurrence has strictly more.
\<close>

definition first_fewest_valid :: "(block_ptr \<Rightarrow> Block) \<Rightarrow> block_ptr list \<Rightarrow> block_ptr \<Rightarrow> bool" where
  "first_fewest_valid d cs v \<longleftrightarrow>
     v \<in> set cs
     \<and> (\<forall>c \<in> set cs. pages_valid (d v) \<le> pages_valid (d c))
     \<and> (\<forall>c \<in> set (takeWhile (\<lambda>c. c \<noteq> v) cs). pages_valid (d v) < pages_valid (d c))"


subsection \<open>A small device for the block manager\<close>

text \<open>
  One package, one die, one plane of four blocks with eight pages each and two age
  classes. Block 0 is ACTIVE with four of its eight pages invalidated, block 1 is ACTIVE
  with all eight pages valid and has been erased once, blocks 2 and 3 are free. The
  members \<^verbatim>\<open>max_age = 1\<close> and \<^verbatim>\<open>min_age = 0\<close> are the values the constructor sets.
\<close>

definition gc_config :: Config where
  "gc_config =
     \<lparr> SSD_SIZE = 1, PACKAGE_SIZE = 1, DIE_SIZE = 1, PLANE_SIZE = 4,
       BLOCK_SIZE = 8, BLOCK_ERASES = 1000, PAGE_MAX_LOG = 2 \<rparr>"

definition device_of :: "Block list \<Rightarrow> Ssd" where
  "device_of bs =
     \<lparr> getBlock = (\<lambda>p d pl b. if p = 0 \<and> d = 0 \<and> pl = 0 \<and> b < length bs then Some b else None),
       deref = (\<lambda>b. bs ! b) \<rparr>"

definition half_invalid_block :: Block where
  "half_invalid_block =
     \<lparr> physical_address = 0, state = ACTIVE, pages_valid = 4, pages_invalid = 4,
       erases_remaining = 1000, page_states = (\<lambda>i. if i < 4 then VALID else INVALID) \<rparr>"

definition fully_valid_block :: Block where
  "fully_valid_block =
     \<lparr> physical_address = 8, state = ACTIVE, pages_valid = 8, pages_invalid = 0,
       erases_remaining = 999, page_states = (\<lambda>i. VALID) \<rparr>"

definition free_block :: "nat \<Rightarrow> uint \<Rightarrow> Block" where
  "free_block a e =
     \<lparr> physical_address = a, state = FREE, pages_valid = 0, pages_invalid = 0,
       erases_remaining = e, page_states = (\<lambda>i. EMPTY) \<rparr>"

definition gc_device :: Ssd where
  "gc_device =
     device_of [half_invalid_block, fully_valid_block, free_block 16 1000, free_block 24 1000]"

definition block_address :: "nat \<Rightarrow> nat \<Rightarrow> address_valid \<Rightarrow> Address" where
  "block_address b p v = \<lparr> package = 0, die = 0, plane = 0, block = b, page = p, valid = v \<rparr>"

definition gc_manager :: Block_manager where
  "gc_manager =
     \<lparr> ssd = gc_device,
       free_block_pointers = [[block_address 2 0 PAGE]],
       free_blocks = [[[[block_address 3 0 PAGE], []]]],
       all_blocks = [0, 1, 2, 3],
       greedy_gc = True,
       max_age = 1,
       min_age = 0,
       num_age_classes = 2,
       blocks_with_min_age = [0, 2, 3],
       num_free_pages = 16,
       num_available_pages_for_new_writes = 16,
       gc_candidates = [[[[1], []]]],
       scheduled = [] \<rparr>"

definition overwrite_completion :: BmEvent where
  "overwrite_completion =
     (Event_new WRITE 3 0)\<lparr> get_address := block_address 2 0 PAGE,
                            get_replace_address := block_address 0 4 PAGE,
                            get_time_taken := 1 \<rparr>"


definition wide_age_manager :: Block_manager where
  "wide_age_manager = gc_manager\<lparr> max_age := 2, num_age_classes := 4 \<rparr>"

definition equal_age_manager :: Block_manager where
  "equal_age_manager = gc_manager\<lparr> min_age := 1 \<rparr>"

text \<open>
  The same geometry with four free blocks that have each been erased once. Blocks 1, 2
  and 3 were erased earlier; block 0 was the last block of age 0 and its erase has just
  completed, so \<^verbatim>\<open>blocks_with_min_age\<close> still holds it alone and \<^verbatim>\<open>min_age\<close> is still 0.
\<close>

definition erased_device :: Ssd where
  "erased_device =
     device_of [free_block 0 999, free_block 8 999, free_block 16 999, free_block 24 999]"

definition erased_manager :: Block_manager where
  "erased_manager =
     \<lparr> ssd = erased_device,
       free_block_pointers = [[block_address 1 0 PAGE]],
       free_blocks = [[[[], [block_address 2 0 PAGE, block_address 3 0 PAGE]]]],
       all_blocks = [0, 1, 2, 3],
       greedy_gc = True,
       max_age = 1,
       min_age = 0,
       num_age_classes = 2,
       blocks_with_min_age = [0],
       num_free_pages = 24,
       num_available_pages_for_new_writes = 24,
       gc_candidates = [[[[], []]]],
       scheduled = [] \<rparr>"

definition erase_completion :: BmEvent where
  "erase_completion =
     (Event_new ERASE 0 5)\<lparr> get_address := block_address 0 0 BLOCK,
                            is_garbage_collection_op := True \<rparr>"

definition block_ages :: "Config \<Rightarrow> Block_manager \<Rightarrow> uint list" where
  "block_ages cfg s =
     map (\<lambda>b. BLOCK_ERASES cfg - erases_remaining (deref (ssd s) b)) (all_blocks s)"

text \<open>
  A run in which \<^verbatim>\<open>max_age\<close> rises between the insertion of a candidate and its
  collection. Block 0 is ACTIVE, has been erased once and has four invalid pages; block
  1 has been erased a second time and the completion of that erase is still to be
  registered. \<open>filed_manager\<close> is the state after a write completes with its replace
  address in block 0, \<open>raised_manager\<close> the state after the erase of block 1 is
  registered.
\<close>

definition aged_block :: Block where
  "aged_block =
     \<lparr> physical_address = 0, state = ACTIVE, pages_valid = 4, pages_invalid = 4,
       erases_remaining = 999, page_states = (\<lambda>i. if i < 4 then VALID else INVALID) \<rparr>"

definition aged_device :: Ssd where
  "aged_device =
     device_of [aged_block, free_block 8 998, free_block 16 1000, free_block 24 1000]"

definition aged_manager :: Block_manager where
  "aged_manager =
     \<lparr> ssd = aged_device,
       free_block_pointers = [[block_address 2 0 PAGE]],
       free_blocks = [[[[block_address 3 0 PAGE], []]]],
       all_blocks = [0, 1, 2, 3],
       greedy_gc = True,
       max_age = 1,
       min_age = 0,
       num_age_classes = 2,
       blocks_with_min_age = [2, 3],
       num_free_pages = 16,
       num_available_pages_for_new_writes = 16,
       gc_candidates = [[[[], []]]],
       scheduled = [] \<rparr>"

definition second_erase_completion :: BmEvent where
  "second_erase_completion =
     (Event_new ERASE 0 5)\<lparr> get_address := block_address 1 0 BLOCK,
                            is_garbage_collection_op := True \<rparr>"

definition filed_manager :: Block_manager where
  "filed_manager =
     aged_manager\<lparr> num_free_pages := 15, num_available_pages_for_new_writes := 15,
                   gc_candidates := [[[[], [0]]]] \<rparr>"

definition raised_manager :: Block_manager where
  "raised_manager =
     filed_manager\<lparr> max_age := 2,
                    free_blocks := [[[[block_address 3 0 PAGE], [block_address 1 0 PAGE]]]],
                    num_free_pages := 23, num_available_pages_for_new_writes := 23 \<rparr>"

section \<open>Properties of the translation layer\<close>

lemma halvings_2: "halvings 2 = 2"
  by code_simp

lemma small_shift: "addressShift small_ftl = 2"
  by (simp add: small_ftl_def FtlImpl_Fast_def small_config_def halvings_2)

text \<open>
  C1. A read should fail exactly when the page was never written. On a translation layer
  that has seen no write at all (\<^verbatim>\<open>log_map\<close> empty, every \<^verbatim>\<open>data_list\<close> entry \<^verbatim>\<open>-1\<close>)
  the first test of \<^verbatim>\<open>read\<close> needs a log block to exist, so the read of logical page 0
  is not refused: it is issued to the controller at the linear address \<^verbatim>\<open>-1 + 0\<close> and
  returns what the controller returns, here SUCCESS.
\<close>

theorem read_unwritten_page_is_issued:
  "read small_config small_controller (event_at READ 0) small_ftl =
     (SUCCESS, (event_at READ 0)\<lparr> address := - 1 \<rparr>,
      small_ftl\<lparr> manager := simulate_map_read (manager small_ftl) \<rparr>)"
  by (simp add: read_def lookup_block_def address_page_def small_ftl_def FtlImpl_Fast_def
      small_config_def small_controller_def event_at_def Let_def)

text \<open>
  C2. \<^verbatim>\<open>log_map\<close> should never hold more than \<^verbatim>\<open>PAGE_MAX_LOG\<close> entries. With
  \<^verbatim>\<open>PAGE_MAX_LOG = 2\<close> and four pages per block, the writes of the logical addresses 0, 4
  and 8 leave \<^verbatim>\<open>log_map\<close> with the three keys 0, 1 and 2: the eviction in
  \<^verbatim>\<open>allocate_new_logblock\<close> is commented out.
\<close>

theorem log_map_exceeds_PAGE_MAX_LOG:
  "log_map_keys (write_all small_config small_controller [0, 4, 8] small_ftl) = [0, 1, 2]
   \<and> PAGE_MAX_LOG small_config = 2"
  by code_simp

text \<open>
  C3. A write at page offset 0 should switch only when the sequential block is full and
  its owner was written contiguously, and merge otherwise. The stream 0, 2, 1, 2 to
  logical block 0 breaks the sequence at its second write: \<^verbatim>\<open>write_to_log_block\<close> merges
  the sequential block at 100 into the data block at 104 and restarts the sequential log
  in the block at 108 with \<^verbatim>\<open>sequential_offset = 1\<close>, without placing the write. The
  two in-order writes that follow bring \<^verbatim>\<open>sequential_offset\<close> to \<^verbatim>\<open>BLOCK_SIZE - 1\<close>, so
  the block at 108 has taken the pages 1 and 2 only. The next write at offset 0 runs
  \<^verbatim>\<open>switch_sequential\<close>: no page is copied, the data block at 104 is invalidated and
  \<^verbatim>\<open>data_list[0]\<close> becomes 108.
\<close>

theorem switch_after_broken_sequence:
  "map logical_address (fst broken_sequence) = [0, 2, 1, 2]
   \<and> map address (fst broken_sequence) = [100, 0, 108, 108]
   \<and> map next_events (fst broken_sequence) =
       [[],
        [\<lparr> op_type = READ, op_logical_address = 2, op_address = 100, op_payload = None \<rparr>,
         \<lparr> op_type = WRITE, op_logical_address = 2, op_address = 104, op_payload = Some 100 \<rparr>],
        [], []]
   \<and> sequential_offset (snd broken_sequence) = BLOCK_SIZE small_config - 1
   \<and> sequential_logical_address (snd broken_sequence) = 0
   \<and> sequential_address (snd broken_sequence) = 108
   \<and> data_list (snd broken_sequence) 0 = 104
   \<and> calls (manager (snd broken_sequence)) =
       [GetFreeBlock DATA, GetFreeBlock DATA, Invalidate 100 LOG, InsertEvents,
        SimulateMapWrite, GetFreeBlock DATA]
   \<and> fst (snd (write_to_log_block small_config trace_controller (event_at WRITE 0) 0
                  (snd broken_sequence))) = (event_at WRITE 0)\<lparr> address := 116 \<rparr>
   \<and> data_list (snd (snd (write_to_log_block small_config trace_controller (event_at WRITE 0) 0
                  (snd broken_sequence)))) 0 = 108
   \<and> calls (manager (snd (snd (write_to_log_block small_config trace_controller
                  (event_at WRITE 0) 0 (snd broken_sequence))))) =
       calls (manager (snd broken_sequence))
         @ [Invalidate 104 DATA, GetFreeBlock DATA, SimulateMapWrite, GetFreeBlock DATA]"
  by code_simp

lemma merge_sequential_loop_eq:
  "merge_sequential_loop cfg ctl s l event d i ops =
     ops @ concat (map (sequential_merge_slot ctl s l event d) [i..<unat (BLOCK_SIZE cfg)])"
proof (induction cfg ctl s l event d i ops rule: merge_sequential_loop.induct)
  case (1 cfg ctl s l event d i ops)
  show ?case
  proof (cases "i < unat (BLOCK_SIZE cfg)")
    case False
    then show ?thesis
      by (subst merge_sequential_loop.simps) simp
  next
    case True
    then have upt: "[i..<unat (BLOCK_SIZE cfg)] = i # [Suc i..<unat (BLOCK_SIZE cfg)]"
      by (rule upt_conv_Cons)
    have slot: "sequential_merge_slot ctl s l event d i =
        (if get_state ctl (sequential_address s + int i) = VALID
         then [read_op event (sequential_address s + int i),
               write_op event (sequential_address s + int i) (d + int i)]
         else if data_list s l \<noteq> - 1
         then [read_op event (data_list s l + int i),
               write_op event (data_list s l + int i) (d + int i)]
         else [])"
      by (simp add: sequential_merge_slot_def copy_page_def read_op_def write_op_def)
    show ?thesis
      using True "1.IH"
      by (subst merge_sequential_loop.simps)
         (simp add: upt slot Let_def)
  qed
qed

text \<open>
  What \<^verbatim>\<open>merge_sequential\<close> does, for every state. With the sentinel
  \<^verbatim>\<open>sequential_logical_address = -1\<close> it changes nothing. Otherwise, with \<open>D'\<close> the next
  block of the free list, it appends to the event's chain, for the slots 0 up to
  \<^verbatim>\<open>BLOCK_SIZE - 1\<close> in this order, the copy of page \<open>i\<close> of the sequential block into
  slot \<open>i\<close> of \<open>D'\<close> when that page is VALID, else the copy of \<^verbatim>\<open>data_list[L] + i\<close> when
  the logical block is mapped, and nothing for a slot with neither. It invalidates the
  sequential block and, if mapped, the old data block, and sets \<^verbatim>\<open>data_list[L]\<close> to \<open>D'\<close>.
\<close>

lemma merge_sequential_effect:
  "merge_sequential cfg ctl l event s =
     (if sequential_logical_address s = - 1 then (event, s)
      else
        (event\<lparr> next_events := next_events event @
             concat (map (sequential_merge_slot ctl s l event
                            (free_sequence (manager s) (handed_out (manager s))))
                       [0..<unat (BLOCK_SIZE cfg)]) \<rparr>,
         s\<lparr> data_list := (data_list s)(l := free_sequence (manager s) (handed_out (manager s))),
            manager := (manager s)\<lparr> handed_out := Suc (handed_out (manager s)),
              calls := calls (manager s)
                 @ [GetFreeBlock DATA, Invalidate (sequential_address s) LOG]
                 @ (if data_list s l \<noteq> - 1 then [Invalidate (data_list s l) DATA] else [])
                 @ [InsertEvents, SimulateMapWrite] \<rparr> \<rparr>))"
  by (simp add: merge_sequential_def merge_sequential_loop_eq get_free_block_def invalidate_def
      insert_events_def simulate_map_write_def Let_def)

lemma merge_sequential_copies_valid_pages:
  "next_events (fst (merge_sequential small_config small_controller 0 (event_at WRITE 0)
       full_sequential_ftl))
     = [\<lparr> op_type = READ, op_logical_address = 0, op_address = 40, op_payload = None \<rparr>,
        \<lparr> op_type = WRITE, op_logical_address = 0, op_address = 100, op_payload = Some 40 \<rparr>,
        \<lparr> op_type = READ, op_logical_address = 0, op_address = 41, op_payload = None \<rparr>,
        \<lparr> op_type = WRITE, op_logical_address = 0, op_address = 101, op_payload = Some 41 \<rparr>]
   \<and> data_list (snd (merge_sequential small_config small_controller 0 (event_at WRITE 0)
       full_sequential_ftl)) 0 = 100
   \<and> calls (manager (snd (merge_sequential small_config small_controller 0 (event_at WRITE 0)
       full_sequential_ftl)))
     = [GetFreeBlock DATA, Invalidate 40 LOG, InsertEvents, SimulateMapWrite]"
proof -
  have bs: "unat (BLOCK_SIZE small_config) = 4"
    by (simp add: small_config_def)
  have upt4: "[0..<4] = [0, 1, 2, 3::nat]"
    by (simp add: upt_rec)
  have st: "sequential_logical_address full_sequential_ftl = 0"
     "sequential_address full_sequential_ftl = 40"
     "data_list full_sequential_ftl 0 = - 1"
     "free_sequence (manager full_sequential_ftl) (handed_out (manager full_sequential_ftl)) = 100"
     "calls (manager full_sequential_ftl) = []"
    by (simp_all add: full_sequential_ftl_def small_ftl_def FtlImpl_Fast_def small_manager_def)
  show ?thesis
    unfolding merge_sequential_effect
      [of small_config small_controller 0 "event_at WRITE 0" full_sequential_ftl]
    by (simp add: st bs upt4 sequential_merge_slot_def copy_page_def small_controller_def
        event_at_def)
qed

text \<open>
  C4. A merge with no previous sequential block should change nothing. The test of
  \<^verbatim>\<open>merge_sequential\<close> is \<^verbatim>\<open>sequential_logical_address == -1\<close>, and the constructor sets
  \<^verbatim>\<open>sequential_offset\<close> but neither \<^verbatim>\<open>sequential_logical_address\<close> nor
  \<^verbatim>\<open>sequential_address\<close>. On a freshly constructed translation layer whose unset members
  hold 0, where no write has happened and no sequential block exists,
  \<^verbatim>\<open>merge_sequential(0)\<close> takes the block at 100 off the free list, invalidates the block
  at linear address 0 as if it were the sequential block, and maps logical block 0 to
  the empty block at 100.
\<close>

theorem merge_sequential_on_fresh_ftl:
  "zeroed_ftl = FtlImpl_Fast small_config small_manager 0 0
   \<and> merge_sequential small_config small_controller 0 (event_at WRITE 0) zeroed_ftl =
       (event_at WRITE 0,
        zeroed_ftl\<lparr> data_list := (data_list zeroed_ftl)(0 := 100),
                    manager := \<lparr> free_sequence = free_sequence small_manager, handed_out = 1,
                                 calls = [GetFreeBlock DATA, Invalidate 0 LOG, InsertEvents,
                                          SimulateMapWrite] \<rparr> \<rparr>)
   \<and> data_list zeroed_ftl 0 = - 1
   \<and> log_map zeroed_ftl = []
   \<and> calls (manager zeroed_ftl) = []"
proof -
  have bs: "unat (BLOCK_SIZE small_config) = 4"
    by (simp add: small_config_def)
  have upt4: "[0..<4] = [0, 1, 2, 3::nat]"
    by (simp add: upt_rec)
  have st: "sequential_logical_address zeroed_ftl = 0"
     "sequential_address zeroed_ftl = 0"
     "data_list zeroed_ftl 0 = - 1"
     "log_map zeroed_ftl = []"
     "manager zeroed_ftl = small_manager"
    by (simp_all add: zeroed_ftl_def FtlImpl_Fast_def)
  have mg: "free_sequence small_manager (handed_out small_manager) = 100"
     "calls small_manager = []" "handed_out small_manager = 0"
    by (simp_all add: small_manager_def)
  have "merge_sequential small_config small_controller 0 (event_at WRITE 0) zeroed_ftl =
       (event_at WRITE 0,
        zeroed_ftl\<lparr> data_list := (data_list zeroed_ftl)(0 := 100),
                    manager := \<lparr> free_sequence = free_sequence small_manager, handed_out = 1,
                                 calls = [GetFreeBlock DATA, Invalidate 0 LOG, InsertEvents,
                                          SimulateMapWrite] \<rparr> \<rparr>)"
    unfolding merge_sequential_effect
      [of small_config small_controller 0 "event_at WRITE 0" zeroed_ftl]
    by (simp add: st mg bs upt4 sequential_merge_slot_def small_controller_def event_at_def)
       (simp add: small_manager_def)
  then show ?thesis
    by (simp add: st mg) (simp add: zeroed_ftl_def)
qed

lemma random_merge_loop_eq:
  "random_merge_loop cfg lb s l event d i ops =
     ops @ concat (map (\<lambda>j. if pages lb (address_page cfg (logical_address event)) \<noteq> - 1
                             then [read_op event (lb_address lb + pages lb j),
                                   write_op event (lb_address lb + pages lb j) (d + int j)]
                             else if data_list s l \<noteq> - 1
                             then [read_op event (data_list s l + int j),
                                   write_op event (data_list s l + int j) (d + int j)]
                             else []) [i..<unat (BLOCK_SIZE cfg)])"
proof (induction cfg lb s l event d i ops rule: random_merge_loop.induct)
  case (1 cfg lb s l event d i ops)
  show ?case
  proof (cases "i < unat (BLOCK_SIZE cfg)")
    case False
    then show ?thesis
      by (subst random_merge_loop.simps) simp
  next
    case True
    then have upt: "[i..<unat (BLOCK_SIZE cfg)] = i # [Suc i..<unat (BLOCK_SIZE cfg)]"
      by (rule upt_conv_Cons)
    show ?thesis
      using True "1.IH"
      by (subst random_merge_loop.simps)
         (simp add: upt Let_def)
  qed
qed

text \<open>
  C5. A random merge should take slot \<open>i\<close> from the log block only when the log block
  holds page \<open>i\<close>. With a log block at 8 that holds page 0 only, a data block at 40 and a
  triggering event on page 0, \<^verbatim>\<open>random_merge\<close> reads the slots 1, 2 and 3 from the
  linear address \<^verbatim>\<open>8 + (-1) = 7\<close>, because its test looks at the page of the event for
  every slot; following each page offset on its own gives the data-block pages 41, 42
  and 43.
\<close>

theorem random_merge_mixes_page_coordinates:
  "next_events (fst (snd (random_merge small_config small_log_block 0 (event_at WRITE 0)
       random_log_ftl)))
     = [read_op (event_at WRITE 0) 8, write_op (event_at WRITE 0) 8 100,
        read_op (event_at WRITE 0) 7, write_op (event_at WRITE 0) 7 101,
        read_op (event_at WRITE 0) 7, write_op (event_at WRITE 0) 7 102,
        read_op (event_at WRITE 0) 7, write_op (event_at WRITE 0) 7 103]
   \<and> concat (map (random_merge_slot small_log_block random_log_ftl 0 (event_at WRITE 0) 100)
               [0..<4])
     = [read_op (event_at WRITE 0) 8, write_op (event_at WRITE 0) 8 100,
        read_op (event_at WRITE 0) 41, write_op (event_at WRITE 0) 41 101,
        read_op (event_at WRITE 0) 42, write_op (event_at WRITE 0) 42 102,
        read_op (event_at WRITE 0) 43, write_op (event_at WRITE 0) 43 103]"
proof -
  have bs: "unat (BLOCK_SIZE small_config) = 4"
    by (simp add: small_config_def)
  have upt4: "[0..<4] = [0, 1, 2, 3::nat]"
    by (simp add: upt_rec)
  have d: "fst (get_free_block DATA (manager random_log_ftl)) = 100"
    by (simp add: get_free_block_def random_log_ftl_def small_ftl_def FtlImpl_Fast_def
        small_manager_def)
  have dl: "data_list random_log_ftl 0 = 40"
    by (simp add: random_log_ftl_def)
  have pg: "address_page small_config (logical_address (event_at WRITE 0)) = 0"
    by (simp add: address_page_def event_at_def)
  have code: "next_events (fst (snd (random_merge small_config small_log_block 0
        (event_at WRITE 0) random_log_ftl)))
     = random_merge_loop small_config small_log_block random_log_ftl 0 (event_at WRITE 0) 100 0 []"
    by (simp add: random_merge_def Let_def case_prod_beta d event_at_def)
  show ?thesis
    unfolding code random_merge_loop_eq bs upt4 pg
    by (simp add: random_merge_slot_def dl small_log_block_def)
qed

section \<open>Properties of the block manager\<close>

subsection \<open>Evaluating the small device\<close>

lemma gc_device_blocks:
  "deref gc_device 0 = half_invalid_block"
  "deref gc_device 1 = fully_valid_block"
  "getBlock gc_device 0 0 0 0 = Some 0"
  "getBlock gc_device 0 0 0 1 = Some 1"
  "deref gc_device (Suc 0) = fully_valid_block"
  "getBlock gc_device 0 0 0 (Suc 0) = Some 1"
  by (simp_all add: gc_device_def device_of_def)

lemma erased_device_blocks:
  "deref erased_device 0 = free_block 0 999"
  "deref erased_device (Suc 0) = free_block 8 999"
  "deref erased_device 2 = free_block 16 999"
  "deref erased_device 3 = free_block 24 999"
  "getBlock erased_device 0 0 0 0 = Some 0"
  by (simp_all add: erased_device_def device_of_def)

subsection \<open>Write completion\<close>

text \<open>
  C6. An ACTIVE block that is not yet fully invalid should become a candidate when its
  invalid-page count is at least \<^verbatim>\<open>BLOCK_SIZE / 4\<close>. The write below completes with
  replace address in block 0, which is ACTIVE and has 4 of its 8 pages invalid
  (\<^verbatim>\<open>BLOCK_SIZE / 4 = 2\<close>); the candidate set of its age class holds block 1.
  \<^verbatim>\<open>register_write_outcome\<close> only lowers the two page counters: its test is
  \<^verbatim>\<open>get_pages_invalid() < BLOCK_SIZE / 4\<close>, so block 0 is not inserted.
\<close>

theorem few_invalid_pages_threshold_inverted:
  "register_write_outcome gc_config (\<lambda>a. a) overwrite_completion SUCCESS gc_manager =
     Inr (gc_manager\<lparr> num_free_pages := 15, num_available_pages_for_new_writes := 15 \<rparr>)
   \<and> state (deref (ssd gc_manager) 0) = ACTIVE
   \<and> pages_invalid (deref (ssd gc_manager) 0) = 4
   \<and> BLOCK_SIZE gc_config div 4 = 2
   \<and> gc_candidates gc_manager = [[[[1], []]]]"
proof -
  let ?s = "gc_manager\<lparr> num_free_pages := 15, num_available_pages_for_new_writes := 15 \<rparr>"
  have ra: "get_replace_address overwrite_completion = block_address 0 4 PAGE"
    by (simp add: overwrite_completion_def Event_new_def)
  have gcop: "\<not> is_garbage_collection_op overwrite_completion"
    by (simp add: overwrite_completion_def Event_new_def)
  have counters: "num_free_pages gc_manager = 16"
    "num_available_pages_for_new_writes gc_manager = 16"
    by (simp_all add: gc_manager_def)
  have bs: "BLOCK_SIZE gc_config = 8"
    by (simp add: gc_config_def)
  have dev: "ssd gc_manager = gc_device"
    by (simp add: gc_manager_def)
  have age: "sort_into_age_class gc_config (block_address 0 4 PAGE) ?s = Inr (0, ?s)"
    by (simp add: sort_into_age_class_def gc_manager_def gc_device_blocks
      block_address_def gc_config_def half_invalid_block_def Let_def)
  have ins: "insert_gc_candidate gc_config (block_address 0 4 PAGE) 0 0 ?s = Inr ?s"
    by (simp add: insert_gc_candidate_def gc_manager_def gc_device_blocks half_invalid_block_def
        bs vector_at3_def vector_at_def block_address_def Let_def)
  have er: "erase_if_invalid gc_config overwrite_completion (block_address 0 4 PAGE) 0 0 ?s = Inr ?s"
    by (simp add: erase_if_invalid_def gc_manager_def gc_device_blocks half_invalid_block_def
        bs Let_def)
  have blk: "getBlock gc_device (package (block_address 0 4 PAGE)) (die (block_address 0 4 PAGE))
      (plane (block_address 0 4 PAGE)) (block (block_address 0 4 PAGE)) = Some 0"
    by (simp add: block_address_def gc_device_blocks)
  have "register_write_outcome gc_config (\<lambda>a. a) overwrite_completion SUCCESS gc_manager = Inr ?s"
    unfolding register_write_outcome_def Let_def ra
    by (simp add: gcop counters bs dev blk age ins er)
  then show ?thesis
    by (simp add: dev gc_device_blocks half_invalid_block_def bs) (simp add: gc_manager_def)
qed

subsection \<open>Age classes\<close>

text \<open>
  C9. The age class should be the floor of
  \<^verbatim>\<open>(age - min_age) / (max_age - min_age) * num_age_classes * 0.99999\<close>, and 0 when
  \<^verbatim>\<open>max_age = min_age\<close>. For a block of age 1 with \<^verbatim>\<open>min_age = 0\<close>, \<^verbatim>\<open>max_age = 2\<close> and
  four age classes the formula gives 1, and \<^verbatim>\<open>sort_into_age_class\<close> returns 0, because
  the quotient is taken on unsigned integers. With \<^verbatim>\<open>max_age = min_age = 1\<close> the
  function divides by zero.
\<close>

theorem age_class_quotient_is_truncated:
  "sort_into_age_class gc_config (block_address 1 0 PAGE) wide_age_manager
     = Inr (0, wide_age_manager)
   \<and> BLOCK_ERASES gc_config - erases_remaining (deref (ssd wide_age_manager) 1) = 1
   \<and> min_age wide_age_manager = 0 \<and> max_age wide_age_manager = 2
   \<and> num_age_classes wide_age_manager = 4
   \<and> age_class_formula 1 0 2 4 = 1
   \<and> sort_into_age_class gc_config (block_address 1 0 PAGE) equal_age_manager
     = Inl DivisionByZero
   \<and> min_age equal_age_manager = max_age equal_age_manager"
proof -
  have wide: "ssd wide_age_manager = gc_device" "max_age wide_age_manager = 2"
    "min_age wide_age_manager = 0" "num_age_classes wide_age_manager = 4"
    by (simp_all add: wide_age_manager_def gc_manager_def)
  have equal: "ssd equal_age_manager = gc_device" "max_age equal_age_manager = 1"
    "min_age equal_age_manager = 1"
    by (simp_all add: equal_age_manager_def gc_manager_def)
  have age: "BLOCK_ERASES gc_config - erases_remaining (deref gc_device 1) = 1"
    by (simp add: gc_config_def gc_device_blocks fully_valid_block_def)
  have blk: "getBlock gc_device (package (block_address 1 0 PAGE)) (die (block_address 1 0 PAGE))
      (plane (block_address 1 0 PAGE)) (block (block_address 1 0 PAGE)) = Some 1"
    by (simp add: block_address_def gc_device_blocks)
  have code: "sort_into_age_class gc_config (block_address 1 0 PAGE) wide_age_manager
     = Inr (0, wide_age_manager)"
    unfolding sort_into_age_class_def Let_def wide blk
    by (simp add: age wide del: One_nat_def)
  have zero: "sort_into_age_class gc_config (block_address 1 0 PAGE) equal_age_manager
     = Inl DivisionByZero"
    unfolding sort_into_age_class_def Let_def equal blk
    by (simp add: age equal del: One_nat_def)
  have formula: "age_class_formula 1 0 2 4 = 1"
    by (simp add: age_class_formula_def)
  show ?thesis
    using code zero formula age by (simp add: wide equal)
qed

subsection \<open>Erase completion\<close>

lemma sort_into_age_class_Inr:
  assumes blk: "getBlock (ssd s) (package a) (die a) (plane a) (block a) = Some b"
    and age: "age = BLOCK_ERASES cfg - erases_remaining (deref (ssd s) b)"
    and hi: "hi = max (max_age s) age"
    and nz: "hi - min_age s \<noteq> 0"
    and k: "k = nat \<lfloor>real (unat ((age - min_age s) div (hi - min_age s)))
                   * real (num_age_classes s) * 0.99999\<rfloor>"
    and fits: "k < 2 ^ 32"
  shows "sort_into_age_class cfg a s = Inr (k, s\<lparr> max_age := hi \<rparr>)"
proof (cases "max_age s < age")
  case True
  then have "hi = age"
    using hi by (simp add: max_absorb2 less_imp_le)
  with True nz k fits show ?thesis
    unfolding sort_into_age_class_def blk
    by (simp add: Let_def age)
next
  case False
  then have "hi = max_age s"
    using hi by (simp add: max_absorb1 not_less)
  with False nz k fits show ?thesis
    unfolding sort_into_age_class_def blk
    by (simp add: Let_def age)
qed

text \<open>
  What \<^verbatim>\<open>register_erase_outcome\<close> does when the block exists, \<^verbatim>\<open>max_age\<close> (raised to the
  block's age \<open>age\<close> if that is larger) differs from \<^verbatim>\<open>min_age\<close>, and the age class \<open>k\<close>
  is an index of \<^verbatim>\<open>free_blocks[package][die]\<close>: it pushes the block's address,
  page-granular with page 0, onto \<^verbatim>\<open>free_blocks[package][die][k]\<close>, adds \<^verbatim>\<open>BLOCK_SIZE\<close>
  to both page counters and sets \<^verbatim>\<open>max_age\<close> to the larger of its old value and \<open>age\<close>.
  No other member is written.
\<close>

lemma register_erase_outcome_effect:
  assumes "a = (get_address event)\<lparr> valid := PAGE, page := 0 \<rparr>"
    and "getBlock (ssd s) (package a) (die a) (plane a) (block a) = Some b"
    and "age = BLOCK_ERASES cfg - erases_remaining (deref (ssd s) b)"
    and "hi = max (max_age s) age"
    and "hi - min_age s \<noteq> 0"
    and "k = nat \<lfloor>real (unat ((age - min_age s) div (hi - min_age s)))
                   * real (num_age_classes s) * 0.99999\<rfloor>"
    and "k < 2 ^ 32"
    and "vector_at3 (free_blocks s) (package a) (die a) k = Some fb"
  shows "register_erase_outcome cfg event st s =
     Inr (s\<lparr> max_age := hi,
             free_blocks := vector_update3 (free_blocks s) (package a) (die a) k (fb @ [a]),
             num_free_pages := num_free_pages s + BLOCK_SIZE cfg,
             num_available_pages_for_new_writes :=
               num_available_pages_for_new_writes s + BLOCK_SIZE cfg \<rparr>)"
proof -
  have sort: "sort_into_age_class cfg a s = Inr (k, s\<lparr> max_age := hi \<rparr>)"
    using assms(2-7) by (rule sort_into_age_class_Inr)
  show ?thesis
    unfolding register_erase_outcome_def Let_def assms(1) [symmetric] sort
    using assms(8) by simp
qed

text \<open>
  C8. An erase completion should update \<^verbatim>\<open>min_age\<close> and \<^verbatim>\<open>blocks_with_min_age\<close>. Block 0
  was the last block of age 0 and has just been erased, so every block now has age 1.
  \<^verbatim>\<open>register_erase_outcome\<close> pushes the block onto the free list of age class 1 and
  adds \<^verbatim>\<open>BLOCK_SIZE\<close> to both counters, but \<^verbatim>\<open>min_age\<close> is still 0 and
  \<^verbatim>\<open>blocks_with_min_age\<close> is still the set of block 0 alone: the function does not
  call \<^verbatim>\<open>Wear_Level\<close>. \<^verbatim>\<open>Wear_Level\<close> on the same event rebuilds \<^verbatim>\<open>blocks_with_min_age\<close>,
  but its \<^verbatim>\<open>min_age++\<close> increments a local variable that hides the member, so
  \<^verbatim>\<open>min_age\<close> is 0 after it as well.
\<close>

theorem erase_completion_leaves_min_age:
  "register_erase_outcome gc_config erase_completion SUCCESS erased_manager =
     Inr (erased_manager
           \<lparr> free_blocks := [[[[], [block_address 2 0 PAGE, block_address 3 0 PAGE,
                                    block_address 0 0 PAGE]]]],
             num_free_pages := 32,
             num_available_pages_for_new_writes := 32 \<rparr>)
   \<and> block_ages gc_config erased_manager = [1, 1, 1, 1]
   \<and> map_sum id min_age (register_erase_outcome gc_config erase_completion SUCCESS erased_manager)
       = Inr 0
   \<and> map_sum id blocks_with_min_age
         (register_erase_outcome gc_config erase_completion SUCCESS erased_manager)
       = Inr [0]
   \<and> Wear_Level gc_config (\<lambda>a. a) erase_completion erased_manager =
       Inr (erased_manager\<lparr> blocks_with_min_age := [0, 1, 2, 3] \<rparr>)
   \<and> map_sum id min_age (Wear_Level gc_config (\<lambda>a. a) erase_completion erased_manager)
       = Inr 0"
proof -
  have dev: "ssd erased_manager = erased_device"
    by (simp add: erased_manager_def)
  have ev: "get_address erase_completion = block_address 0 0 BLOCK"
    by (simp add: erase_completion_def)
  have a: "block_address 0 0 PAGE = (get_address erase_completion)\<lparr> valid := PAGE, page := 0 \<rparr>"
    by (simp add: ev block_address_def)
  have blk: "getBlock (ssd erased_manager) (package (block_address 0 p v))
      (die (block_address 0 p v)) (plane (block_address 0 p v)) (block (block_address 0 p v))
      = Some 0" for p v
    by (simp add: dev block_address_def erased_device_blocks)
  have age: "(1::uint) = BLOCK_ERASES gc_config - erases_remaining (deref (ssd erased_manager) 0)"
    by (simp add: dev erased_device_blocks free_block_def gc_config_def)
  have hi: "(1::uint) = max (max_age erased_manager) 1"
    by (simp add: erased_manager_def)
  have nz: "(1::uint) - min_age erased_manager \<noteq> 0"
    by (simp add: erased_manager_def)
  have k: "(1::nat) = nat \<lfloor>real (unat (((1::uint) - min_age erased_manager)
                                        div (1 - min_age erased_manager)))
                   * real (num_age_classes erased_manager) * 0.99999\<rfloor>"
    by (simp add: erased_manager_def)
  have fits: "(1::nat) < 2 ^ 32"
    by simp
  have fb: "vector_at3 (free_blocks erased_manager) (package (block_address 0 0 PAGE))
      (die (block_address 0 0 PAGE)) 1
      = Some [block_address 2 0 PAGE, block_address 3 0 PAGE]"
    by (simp add: erased_manager_def block_address_def vector_at3_def vector_at_def)
  have erase: "register_erase_outcome gc_config erase_completion SUCCESS erased_manager =
     Inr (erased_manager
           \<lparr> free_blocks := [[[[], [block_address 2 0 PAGE, block_address 3 0 PAGE,
                                    block_address 0 0 PAGE]]]],
             num_free_pages := 32,
             num_available_pages_for_new_writes := 32 \<rparr>)"
    using register_erase_outcome_effect [OF a blk age hi nz k fits fb, of SUCCESS]
    by (simp add: gc_config_def)
       (simp add: erased_manager_def vector_update3_def block_address_def)
  have ages: "block_ages gc_config erased_manager = [1, 1, 1, 1]"
    by (simp add: block_ages_def dev erased_device_blocks free_block_def gc_config_def)
       (simp add: erased_manager_def erased_device_blocks free_block_def)
  have rebuilt: "update_blocks_with_min_age gc_config (deref erased_device) 1 [0, 1, 2, 3] []
      = [0, 1, 2, 3]"
    by code_simp
  have wear: "Wear_Level gc_config (\<lambda>a. a) erase_completion erased_manager =
       Inr (erased_manager\<lparr> blocks_with_min_age := [0, 1, 2, 3] \<rparr>)"
  proof -
    have fields: "blocks_with_min_age erased_manager = [0]"
      "all_blocks erased_manager = [0, 1, 2, 3]" "max_age erased_manager = 1"
      by (simp_all add: erased_manager_def)
    have age0: "BLOCK_ERASES gc_config - erases_remaining (deref erased_device 0) = 1"
      by (simp add: erased_device_blocks free_block_def gc_config_def)
    have at0: "getBlock erased_device (package (block_address 0 0 BLOCK))
        (die (block_address 0 0 BLOCK)) (plane (block_address 0 0 BLOCK))
        (block (block_address 0 0 BLOCK)) = Some 0"
      by (simp add: block_address_def erased_device_blocks)
    show ?thesis
      unfolding Wear_Level_def Let_def ev dev fields at0
      by (simp add: age0 set_erase_def rebuilt
          del: update_blocks_with_min_age.simps One_nat_def)
  qed
  show ?thesis
    unfolding erase wear
    using ages by (simp add: erased_manager_def)
qed

subsection \<open>Garbage collection\<close>

lemma scan_set_append:
  "scan_set d (xs @ ys) acc = scan_set d ys (scan_set d xs acc)"
proof (induction xs arbitrary: acc)
  case Nil
  show ?case by simp
next
  case (Cons x xs)
  show ?case by (cases acc) (simp add: Cons.IH)
qed

lemma scan_candidates_concat:
  "scan_candidates d cs acc = scan_set d (concat cs) acc"
  by (induction cs arbitrary: acc) (simp_all add: scan_set_append)

lemma scan_set_result:
  "scan_set d xs (m, b) = (m', b') \<Longrightarrow>
     (m' = m \<and> b' = b \<and> (\<forall>c \<in> set xs. m \<le> pages_valid (d c)))
     \<or> (\<exists>v. b' = Some v \<and> m' = pages_valid (d v) \<and> pages_valid (d v) < m
            \<and> first_fewest_valid d xs v)"
proof (induction xs arbitrary: m b)
  case Nil
  then show ?case by simp
next
  case (Cons x xs)
  show ?case
  proof (cases "pages_valid (d x) < m")
    case True
    with Cons.prems have run: "scan_set d xs (pages_valid (d x), Some x) = (m', b')"
      by simp
    from Cons.IH [OF run] show ?thesis
    proof
      assume keep: "m' = pages_valid (d x) \<and> b' = Some x
          \<and> (\<forall>c \<in> set xs. pages_valid (d x) \<le> pages_valid (d c))"
      then have "first_fewest_valid d (x # xs) x"
        by (simp add: first_fewest_valid_def)
      with keep True show ?thesis by blast
    next
      assume "\<exists>v. b' = Some v \<and> m' = pages_valid (d v) \<and> pages_valid (d v) < pages_valid (d x)
          \<and> first_fewest_valid d xs v"
      then obtain v where v: "b' = Some v" "m' = pages_valid (d v)"
          "pages_valid (d v) < pages_valid (d x)" "first_fewest_valid d xs v"
        by blast
      from v(3) have "x \<noteq> v" by auto
      with v(3,4) have "first_fewest_valid d (x # xs) v"
        by (auto simp: first_fewest_valid_def)
      moreover from v(3) True have "pages_valid (d v) < m" by simp
      ultimately show ?thesis using v(1,2) by blast
    qed
  next
    case False
    with Cons.prems have run: "scan_set d xs (m, b) = (m', b')"
      by simp
    from Cons.IH [OF run] show ?thesis
    proof
      assume "m' = m \<and> b' = b \<and> (\<forall>c \<in> set xs. m \<le> pages_valid (d c))"
      with False show ?thesis by auto
    next
      assume "\<exists>v. b' = Some v \<and> m' = pages_valid (d v) \<and> pages_valid (d v) < m
          \<and> first_fewest_valid d xs v"
      then obtain v where v: "b' = Some v" "m' = pages_valid (d v)"
          "pages_valid (d v) < m" "first_fewest_valid d xs v"
        by blast
      from v(3) False have less: "pages_valid (d v) < pages_valid (d x)" by simp
      then have "x \<noteq> v" by auto
      with less v(4) have "first_fewest_valid d (x # xs) v"
        by (auto simp: first_fewest_valid_def)
      with v(1,2,3) show ?thesis by blast
    qed
  qed
qed


lemma best_block_Some:
  assumes "best_block cfg candidates s = Some v"
  shows "pages_valid (deref (ssd s) v) < BLOCK_SIZE cfg
         \<and> first_fewest_valid (deref (ssd s)) (concat candidates) v"
proof -
  obtain m' b' where run:
    "scan_set (deref (ssd s)) (concat candidates) (BLOCK_SIZE cfg, None) = (m', b')"
    by (cases "scan_set (deref (ssd s)) (concat candidates) (BLOCK_SIZE cfg, None)")
  with assms have "b' = Some v"
    by (simp add: best_block_def scan_candidates_concat)
  with scan_set_result [OF run] show ?thesis by auto
qed

text \<open>
  C10. \<^verbatim>\<open>choose_gc_victim\<close> never selects a block whose valid-page count is
  \<^verbatim>\<open>BLOCK_SIZE\<close>: a selected block has fewer valid pages than that, and when every
  candidate has all \<^verbatim>\<open>BLOCK_SIZE\<close> pages valid the call returns the state it was given,
  so nothing is migrated and \<^verbatim>\<open>gc_candidates\<close> is unchanged.
\<close>

theorem choose_gc_victim_skips_fully_valid_blocks:
  "(\<forall>v. best_block cfg candidates s = Some v \<longrightarrow> pages_valid (deref (ssd s) v) < BLOCK_SIZE cfg)
   \<and> ((\<forall>c \<in> set (concat candidates). pages_valid (deref (ssd s) c) = BLOCK_SIZE cfg)
        \<longrightarrow> choose_gc_victim cfg ftl candidates t s = Inr s)"
proof (intro conjI allI impI)
  fix v
  assume "best_block cfg candidates s = Some v"
  then show "pages_valid (deref (ssd s) v) < BLOCK_SIZE cfg"
    by (simp add: best_block_Some)
next
  assume full: "\<forall>c \<in> set (concat candidates). pages_valid (deref (ssd s) c) = BLOCK_SIZE cfg"
  have "best_block cfg candidates s = None"
  proof (cases "best_block cfg candidates s")
    case None
    then show ?thesis .
  next
    case (Some v)
    from best_block_Some [OF Some]
    have "pages_valid (deref (ssd s) v) < BLOCK_SIZE cfg" and "v \<in> set (concat candidates)"
      by (simp_all add: first_fewest_valid_def)
    with full show ?thesis by auto
  qed
  then show "choose_gc_victim cfg ftl candidates t s = Inr s"
    by (simp add: choose_gc_victim_def)
qed

theorem choose_gc_victim_skips_fully_valid_blocks_witness:
  "choose_gc_victim gc_config (\<lambda>a. a) [[1], [1]] 0 gc_manager = Inr gc_manager"
proof -
  have "\<forall>c \<in> set (concat [[1], [1]]).
      pages_valid (deref (ssd gc_manager) c) = BLOCK_SIZE gc_config"
    by (simp add: gc_manager_def gc_device_blocks fully_valid_block_def gc_config_def)
  with choose_gc_victim_skips_fully_valid_blocks
         [of gc_config "[[1], [1]]" gc_manager "\<lambda>a. a" 0]
  show ?thesis by blast
qed







text \<open>
  The victim is looked up in the candidate set of the age class that
  \<^verbatim>\<open>sort_into_age_class\<close> computes at collection time. In the run below block 0 is
  inserted into the set of class 1 while \<^verbatim>\<open>max_age\<close> is 1; the erase of block 1 raises
  \<^verbatim>\<open>max_age\<close> to 2, which puts block 0 into class 0; \<^verbatim>\<open>perform_gc\<close> then chooses block
  0, does not find it in the set of class 0, and its assertion fails.
\<close>

lemma aged_device_blocks:
  "deref aged_device 0 = aged_block"
  "deref aged_device (Suc 0) = free_block 8 998"
  "getBlock aged_device 0 0 0 0 = Some 0"
  "getBlock aged_device 0 0 0 (Suc 0) = Some (Suc 0)"
  by (simp_all add: aged_device_def device_of_def)

lemma stale_age_class_step1:
  "register_write_outcome gc_config (\<lambda>a. a) overwrite_completion SUCCESS aged_manager
     = Inr filed_manager"
proof -
  let ?s = "aged_manager\<lparr> num_free_pages := 15, num_available_pages_for_new_writes := 15 \<rparr>"
  have ra: "get_replace_address overwrite_completion = block_address 0 4 PAGE"
    by (simp add: overwrite_completion_def Event_new_def)
  have gcop: "\<not> is_garbage_collection_op overwrite_completion"
    by (simp add: overwrite_completion_def Event_new_def)
  have counters: "num_free_pages aged_manager = 16"
    "num_available_pages_for_new_writes aged_manager = 16"
    by (simp_all add: aged_manager_def)
  have bs: "BLOCK_SIZE gc_config = 8"
    by (simp add: gc_config_def)
  have dev: "ssd aged_manager = aged_device"
    by (simp add: aged_manager_def)
  have blk: "getBlock aged_device (package (block_address 0 4 PAGE)) (die (block_address 0 4 PAGE))
      (plane (block_address 0 4 PAGE)) (block (block_address 0 4 PAGE)) = Some 0"
    by (simp add: block_address_def aged_device_blocks)
  have age: "sort_into_age_class gc_config (block_address 0 4 PAGE) ?s = Inr (1, ?s)"
    by (simp add: sort_into_age_class_def aged_manager_def aged_device_blocks
      block_address_def gc_config_def aged_block_def Let_def del: One_nat_def)
  have ins: "insert_gc_candidate gc_config (block_address 0 4 PAGE) 1 0 ?s = Inr filed_manager"
    by (simp add: insert_gc_candidate_def filed_manager_def aged_manager_def aged_device_blocks
        aged_block_def bs vector_at3_def vector_at_def vector_update3_def block_address_def
        set_insert_def Let_def)
  have er: "erase_if_invalid gc_config overwrite_completion (block_address 0 4 PAGE) 1 0
      filed_manager = Inr filed_manager"
    by (simp add: erase_if_invalid_def filed_manager_def aged_manager_def aged_device_blocks
        aged_block_def bs Let_def)
  show ?thesis
    unfolding register_write_outcome_def Let_def ra
    by (simp add: gcop counters bs dev blk age ins er del: One_nat_def)
qed

lemma stale_age_class_step2:
  "register_erase_outcome gc_config second_erase_completion SUCCESS filed_manager
     = Inr raised_manager"
proof -
  have dev: "ssd filed_manager = aged_device"
    by (simp add: filed_manager_def aged_manager_def)
  have a: "block_address 1 0 PAGE = (get_address second_erase_completion)\<lparr> valid := PAGE, page := 0 \<rparr>"
    by (simp add: second_erase_completion_def block_address_def)
  have blk: "getBlock (ssd filed_manager) (package (block_address 1 0 PAGE))
      (die (block_address 1 0 PAGE)) (plane (block_address 1 0 PAGE))
      (block (block_address 1 0 PAGE)) = Some (Suc 0)"
    by (simp add: dev block_address_def aged_device_blocks)
  have age: "(2::uint) = BLOCK_ERASES gc_config - erases_remaining (deref (ssd filed_manager) (Suc 0))"
    by (simp add: dev aged_device_blocks free_block_def gc_config_def)
  have hi: "(2::uint) = max (max_age filed_manager) 2"
    by (simp add: filed_manager_def aged_manager_def)
  have nz: "(2::uint) - min_age filed_manager \<noteq> 0"
    by (simp add: filed_manager_def aged_manager_def)
  have k: "(1::nat) = nat \<lfloor>real (unat (((2::uint) - min_age filed_manager)
                                        div (2 - min_age filed_manager)))
                   * real (num_age_classes filed_manager) * 0.99999\<rfloor>"
    by (simp add: filed_manager_def aged_manager_def)
  have fits: "(1::nat) < 2 ^ 32"
    by simp
  have fb: "vector_at3 (free_blocks filed_manager) (package (block_address 1 0 PAGE))
      (die (block_address 1 0 PAGE)) 1 = Some []"
    by (simp add: filed_manager_def aged_manager_def block_address_def vector_at3_def vector_at_def)
  show ?thesis
    using register_erase_outcome_effect [OF a blk age hi nz k fits fb, of SUCCESS]
    by (simp add: gc_config_def)
       (simp add: raised_manager_def filed_manager_def aged_manager_def vector_update3_def
          block_address_def)
qed

lemma stale_age_class_step3:
  "perform_gc gc_config (\<lambda>a. a) Whole_device 9 raised_manager = Inl AssertionFailed"
proof -
  have dev: "ssd raised_manager = aged_device"
    by (simp add: raised_manager_def filed_manager_def aged_manager_def)
  have cands: "candidates_of gc_config Whole_device raised_manager = Some [[], [0]]"
    by (simp add: gc_config_def raised_manager_def filed_manager_def aged_manager_def
        vector_at3_def vector_at_def upt_rec)
  have best: "best_block gc_config [[], [0]] raised_manager = Some 0"
    by (simp add: best_block_def dev aged_device_blocks aged_block_def gc_config_def)
  have addr: "Address_of_linear gc_config (physical_address (deref (ssd raised_manager) 0)) BLOCK
      = block_address 0 0 BLOCK"
    by (simp add: dev aged_device_blocks aged_block_def Address_of_linear_def
        block_address_def gc_config_def)
  have sort: "sort_into_age_class gc_config (block_address 0 0 BLOCK) raised_manager
      = Inr (0, raised_manager)"
    by (simp add: sort_into_age_class_def raised_manager_def filed_manager_def aged_manager_def
        aged_device_blocks block_address_def gc_config_def aged_block_def Let_def)
  have cs: "vector_at3 (gc_candidates raised_manager) (package (block_address 0 0 BLOCK))
      (die (block_address 0 0 BLOCK)) 0 = Some []"
    by (simp add: raised_manager_def filed_manager_def aged_manager_def vector_at3_def
        vector_at_def block_address_def)
  have "perform_gc gc_config (\<lambda>a. a) Whole_device 9 raised_manager =
      choose_gc_victim gc_config (\<lambda>a. a) [[], [0]] 9 raised_manager"
    unfolding perform_gc_def cands by simp
  also have "\<dots> = collect_victim gc_config (\<lambda>a. a) 0 9 raised_manager"
    unfolding choose_gc_victim_def best by simp
  also have "\<dots> = Inl AssertionFailed"
    unfolding collect_victim_def Let_def addr by (simp add: sort cs)
  finally show ?thesis .
qed

end
